theory Spec2Isabelle
  imports Main "HOL-Library.Word" "HOL-Library.Finite_Map" "HOL-Library.Monad_Syntax"
begin

unbundle bit_operations_syntax

section \<open>C strings\<close>

text \<open>
  A C string is the run of bytes in front of the first NUL of its buffer. A buffer is a
  \<^typ>\<open>string\<close>; the end of the list stands for the terminator as well, so the
  functions below read a buffer exactly as far as \<open>libc\<close> does.
\<close>

definition NUL :: char where
  "NUL = CHR 0x00"

definition c_str :: "string \<Rightarrow> string" where
  "c_str s = takeWhile (\<lambda>c. c \<noteq> NUL) s"

definition strlen :: "string \<Rightarrow> nat" where
  "strlen s = length (c_str s)"

definition strdup :: "string \<Rightarrow> string" where
  "strdup s = c_str s"

text \<open>\<open>strcmp\<close>: the difference of the first pair of bytes that differ, 0 when both
  strings end together.\<close>

fun strcmp :: "string \<Rightarrow> string \<Rightarrow> int" where
  "strcmp [] [] = 0"
| "strcmp [] (y # ys) = - int (of_char y)"
| "strcmp (x # xs) [] = int (of_char x)"
| "strcmp (x # xs) (y # ys) =
     (if x = y then (if x = NUL then 0 else strcmp xs ys)
      else int (of_char x) - int (of_char y))"

text \<open>\<open>strcpy\<close> of one string followed by \<open>strcat\<close> of others into a buffer that is
  large enough.\<close>

definition strcat :: "string \<Rightarrow> string \<Rightarrow> string" where
  "strcat dst src = c_str dst @ c_str src"

section \<open>CoreFoundation values\<close>

text \<open>
  A string object is its characters: \<open>CFEqual\<close>, \<open>CFStringCompare\<close> and the lookup of a key
  in a dictionary go by them. \<open>CFSTR_lit\<close> makes the object of the characters, as the
  source's \<open>CFSTR( "..." )\<close> does. The string macros of the IOKit headers and the
  \<open>CFStringRef\<close> constants of \<open>DADisk.h\<close> and \<open>DAInternal.h\<close> are named in the source,
  and their characters are written outside \<open>src/\<close>: the names are the two types below,
  the characters are parameters (\<open>io_string\<close> and \<open>da_string\<close> further down).
\<close>

datatype io_macro =
    kIOBSDNameKey | kIOBSDMajorKey | kIOBSDMinorKey | kIOBSDUnitKey
  | kIOMediaPreferredBlockSizeKey | kIOMediaContentKey | kIOMediaEjectableKey
  | kIOMediaIconKey | kIOMediaLeafKey | kIOMediaRemovableKey | kIOMediaSizeKey
  | kIOMediaWholeKey | kIOMediaWritableKey
  | kIODVDMediaTypeKey | kIOCDMediaTypeKey
  | kIODVDMediaClass | kIOCDMediaClass | kIOMediaClass | kIOBlockStorageDeviceClass
  | kIOPropertyProtocolCharacteristicsKey | kIOPropertyPhysicalInterconnectLocationKey
  | kIOPropertyInternalKey | kIOPropertyExternalKey
  | kIOPropertyPhysicalInterconnectTypeKey
  | kIOPropertyDeviceCharacteristicsKey | kIOPropertyProductNameKey
  | kIOPropertyProductRevisionLevelKey | kIOPropertyVendorNameKey
  | kIOPropertyMatchKey

datatype io_plane = kIOServicePlane | kIODeviceTreePlane

datatype da_constant =
    kDADiskIDKey | kDADiskDescriptionVolumeKindKey
  | kDADiskDescriptionVolumeMountableKey | kDADiskDescriptionVolumeNameKey
  | kDADiskDescriptionVolumeNetworkKey | kDADiskDescriptionVolumePathKey
  | kDADiskDescriptionVolumeUUIDKey | kDADiskDescriptionMediaBlockSizeKey
  | kDADiskDescriptionMediaBSDMajorKey | kDADiskDescriptionMediaBSDMinorKey
  | kDADiskDescriptionMediaBSDNameKey | kDADiskDescriptionMediaBSDUnitKey
  | kDADiskDescriptionMediaContentKey | kDADiskDescriptionMediaEjectableKey
  | kDADiskDescriptionMediaIconKey | kDADiskDescriptionMediaKindKey
  | kDADiskDescriptionMediaLeafKey | kDADiskDescriptionMediaNameKey
  | kDADiskDescriptionMediaPathKey | kDADiskDescriptionMediaRemovableKey
  | kDADiskDescriptionMediaSizeKey | kDADiskDescriptionMediaTypeKey
  | kDADiskDescriptionMediaWholeKey | kDADiskDescriptionMediaWritableKey
  | kDADiskDescriptionDeviceGUIDKey | kDADiskDescriptionDeviceInternalKey
  | kDADiskDescriptionDeviceModelKey | kDADiskDescriptionDevicePathKey
  | kDADiskDescriptionDeviceProtocolKey | kDADiskDescriptionDeviceRevisionKey
  | kDADiskDescriptionDeviceUnitKey | kDADiskDescriptionDeviceVendorKey
  | kDADiskDescriptionBusNameKey | kDADiskDescriptionBusPathKey
  | kDADiskDescriptionAppearanceTimeKey

datatype cfstring = CFSTR_lit string

text \<open>The \<open>CFStringRef\<close> constants are the keys of different entries of a description:
  no two of them have the same characters, whatever the characters are. \<open>da_names\<close> is
  the type of such assignments of characters; the one that follows is the assignment of
  the concrete machine further down.\<close>

fun demo_da_string :: "da_constant \<Rightarrow> string" where
  "demo_da_string kDADiskIDKey = ''DADiskID''"
| "demo_da_string kDADiskDescriptionVolumeKindKey = ''DAVolumeKind''"
| "demo_da_string kDADiskDescriptionVolumeMountableKey = ''DAVolumeMountable''"
| "demo_da_string kDADiskDescriptionVolumeNameKey = ''DAVolumeName''"
| "demo_da_string kDADiskDescriptionVolumeNetworkKey = ''DAVolumeNetwork''"
| "demo_da_string kDADiskDescriptionVolumePathKey = ''DAVolumePath''"
| "demo_da_string kDADiskDescriptionVolumeUUIDKey = ''DAVolumeUUID''"
| "demo_da_string kDADiskDescriptionMediaBlockSizeKey = ''DAMediaBlockSize''"
| "demo_da_string kDADiskDescriptionMediaBSDMajorKey = ''DAMediaBSDMajor''"
| "demo_da_string kDADiskDescriptionMediaBSDMinorKey = ''DAMediaBSDMinor''"
| "demo_da_string kDADiskDescriptionMediaBSDNameKey = ''DAMediaBSDName''"
| "demo_da_string kDADiskDescriptionMediaBSDUnitKey = ''DAMediaBSDUnit''"
| "demo_da_string kDADiskDescriptionMediaContentKey = ''DAMediaContent''"
| "demo_da_string kDADiskDescriptionMediaEjectableKey = ''DAMediaEjectable''"
| "demo_da_string kDADiskDescriptionMediaIconKey = ''DAMediaIcon''"
| "demo_da_string kDADiskDescriptionMediaKindKey = ''DAMediaKind''"
| "demo_da_string kDADiskDescriptionMediaLeafKey = ''DAMediaLeaf''"
| "demo_da_string kDADiskDescriptionMediaNameKey = ''DAMediaName''"
| "demo_da_string kDADiskDescriptionMediaPathKey = ''DAMediaPath''"
| "demo_da_string kDADiskDescriptionMediaRemovableKey = ''DAMediaRemovable''"
| "demo_da_string kDADiskDescriptionMediaSizeKey = ''DAMediaSize''"
| "demo_da_string kDADiskDescriptionMediaTypeKey = ''DAMediaType''"
| "demo_da_string kDADiskDescriptionMediaWholeKey = ''DAMediaWhole''"
| "demo_da_string kDADiskDescriptionMediaWritableKey = ''DAMediaWritable''"
| "demo_da_string kDADiskDescriptionDeviceGUIDKey = ''DADeviceGUID''"
| "demo_da_string kDADiskDescriptionDeviceInternalKey = ''DADeviceInternal''"
| "demo_da_string kDADiskDescriptionDeviceModelKey = ''DADeviceModel''"
| "demo_da_string kDADiskDescriptionDevicePathKey = ''DADevicePath''"
| "demo_da_string kDADiskDescriptionDeviceProtocolKey = ''DADeviceProtocol''"
| "demo_da_string kDADiskDescriptionDeviceRevisionKey = ''DADeviceRevision''"
| "demo_da_string kDADiskDescriptionDeviceUnitKey = ''DADeviceUnit''"
| "demo_da_string kDADiskDescriptionDeviceVendorKey = ''DADeviceVendor''"
| "demo_da_string kDADiskDescriptionBusNameKey = ''DABusName''"
| "demo_da_string kDADiskDescriptionBusPathKey = ''DABusPath''"
| "demo_da_string kDADiskDescriptionAppearanceTimeKey = ''DAAppearanceTime''"

typedef da_names = "{names :: da_constant \<Rightarrow> string. inj names}"
proof
  show "demo_da_string \<in> {names. inj names}"
  proof (rule CollectI, rule injI)
    fix a b
    assume "demo_da_string a = demo_da_string b"
    then show "a = b"
      by (cases a; cases b; simp)
  qed
qed


text \<open>A \<open>CFTypeRef\<close> that is not \<open>NULL\<close>. \<open>kCFBooleanTrue\<close> and \<open>kCFBooleanFalse\<close> are
  the only two booleans, so comparing a reference with one of them by \<open>==\<close>, as the source
  does, is comparing values.\<close>

datatype cfvalue =
    CFBoolean bool
  | CFNumber int
  | CFString cfstring
  | CFData "8 word list"
  | CFURL string
  | CFDictionary "(cfstring, cfvalue) fmap"
  | CFOther nat

abbreviation kCFBooleanTrue :: cfvalue where
  "kCFBooleanTrue \<equiv> CFBoolean True"

abbreviation kCFBooleanFalse :: cfvalue where
  "kCFBooleanFalse \<equiv> CFBoolean False"

type_synonym cfdictionary = "cfstring \<Rightarrow> cfvalue option"

definition CFDictionaryGetValue :: "cfdictionary \<Rightarrow> cfstring \<Rightarrow> cfvalue option" where
  "CFDictionaryGetValue dict key = dict key"

definition CFDictionarySetValue :: "cfdictionary \<Rightarrow> cfstring \<Rightarrow> cfvalue \<Rightarrow> cfdictionary" where
  "CFDictionarySetValue dict key v = dict(key \<mapsto> v)"

definition CFDictionaryRemoveValue :: "cfdictionary \<Rightarrow> cfstring \<Rightarrow> cfdictionary" where
  "CFDictionaryRemoveValue dict key = dict(key := None)"

definition CFEqual :: "cfvalue \<Rightarrow> cfvalue \<Rightarrow> bool" where
  "CFEqual a b = (a = b)"

section \<open>The disk object\<close>

type_synonym io_service_t = nat
type_synonym uid_t = "32 word"
type_synonym gid_t = "32 word"
type_synonym DADiskOptions = "32 word"
type_synonym DADiskState = "32 word"
type_synonym CFHashCode = "64 word"

text \<open>\<open>struct __DADisk\<close>. A pointer field is an option, \<open>None\<close> for \<open>NULL\<close>; the
  objects behind \<open>_claim\<close>, \<open>_context\<close>, \<open>_contextRe\<close> and \<open>_filesystem\<close> are opaque.\<close>

record DADisk =
  disk_bypath :: "cfvalue option"
  disk_claim :: "nat option"
  disk_context :: "cfvalue option"
  disk_contextRe :: "cfvalue option"
  disk_description :: cfdictionary
  disk_device :: "cfvalue option"
  disk_deviceNode :: "32 word"
  disk_devicePath0 :: "string option"
  disk_devicePath1 :: "string option"
  disk_deviceUnit :: "32 word"
  disk_filesystem :: "nat option"
  disk_id :: string
  disk_media :: "io_service_t option"
  disk_mode :: "16 word"
  disk_options :: DADiskOptions
  disk_serialization :: "cfvalue option"
  disk_state :: DADiskState
  disk_userEGID :: gid_t
  disk_userEUID :: uid_t
  disk_userRGID :: gid_t
  disk_userRUID :: uid_t

section \<open>What the source takes from outside\<close>

text \<open>
  Constants of headers that are not under \<open>src/\<close>: \<open>___GID_ADMIN\<close>, \<open>___UID_ROOT\<close>,
  \<open>___GID_UNKNOWN\<close>, \<open>___UID_UNKNOWN\<close> (\<open>DABase.h\<close>), the option and state bits
  (\<open>DADisk.h\<close>), \<open>MNT_LOCAL\<close> (\<open>sys/mount.h\<close>), \<open>makedev\<close> (\<open>sys/types.h\<close>) and the byte
  order of the host (\<open>libkern/OSByteOrder.h\<close>), the characters of the string macros
  (the IOKit headers) and of the \<open>CFStringRef\<close> constants (\<open>DADisk.h\<close>,
  \<open>DAInternal.h\<close>). They are parameters.
\<close>

record da_header =
  GID_ADMIN :: gid_t
  UID_ROOT :: uid_t
  GID_UNKNOWN :: gid_t
  UID_UNKNOWN :: uid_t
  kDADiskOptionEjectUponLogout :: DADiskOptions
  kDADiskOptionMountAutomatic :: DADiskOptions
  kDADiskOptionMountAutomaticNoDefer :: DADiskOptions
  kDADiskStateStagedProbe :: DADiskState
  kDADiskStateStagedPeek :: DADiskState
  kDADiskStateStagedRepair :: DADiskState
  kDADiskStateStagedApprove :: DADiskState
  kDADiskStateStagedAuthorize :: DADiskState
  kDADiskStateStagedMount :: DADiskState
  MNT_LOCAL :: "32 word"
  makedev :: "32 word \<Rightarrow> 32 word \<Rightarrow> 32 word"
  host_little_endian :: bool
  io_string :: "io_macro \<Rightarrow> string"
  da_string :: da_names

text \<open>The source's \<open>CFSTR( macro )\<close>, and a \<open>CFStringRef\<close> constant where the source
  names one.\<close>

definition CFSTR :: "da_header \<Rightarrow> io_macro \<Rightarrow> cfstring" where
  "CFSTR h macro = CFSTR_lit (io_string h macro)"

definition da_key :: "da_header \<Rightarrow> da_constant \<Rightarrow> cfstring" where
  "da_key h constant = CFSTR_lit (Rep_da_names (da_string h) constant)"

text \<open>Modelled from the spec: \<open>_PATH_DEV\<close> of \<open>paths.h\<close>, which is not under \<open>src/\<close>; the
  spec's end-to-end property gives the id \<open>/dev/disk2\<close> to the media of BSD name
  \<open>disk2\<close>.\<close>

definition PATH_DEV :: string where
  "PATH_DEV = ''/dev/''"

text \<open>
  The I/O Kit registry. A query that reports \<open>kern_return_t\<close> is \<open>None\<close> when the status
  is not \<open>KERN_SUCCESS\<close>; a query that returns an object is \<open>None\<close> for \<open>NULL\<close>.
  \<open>IORegistryEntryCreateIterator\<close> is the sequence of entries that \<open>IOIteratorNext\<close> then
  yields (parents, recursively); the source never tests its status, and an iterator that
  could not be made yields nothing. \<open>IOServiceMatchPropertyTable\<close> is the value of
  \<open>match\<close> after the call, \<open>FALSE\<close> when the call leaves it untouched.
\<close>

record iokit =
  IORegistryEntryCreateCFProperties :: "io_service_t \<Rightarrow> cfdictionary option"
  IORegistryEntrySearchCFProperty :: "io_service_t \<Rightarrow> io_plane \<Rightarrow> cfstring \<Rightarrow> cfvalue option"
  IOObjectConformsTo :: "io_service_t \<Rightarrow> io_macro \<Rightarrow> bool"
  IORegistryEntryGetName :: "io_service_t \<Rightarrow> string option"
  IORegistryEntryGetPath :: "io_service_t \<Rightarrow> io_plane \<Rightarrow> string option"
  IORegistryEntryCreateIterator :: "io_service_t \<Rightarrow> io_plane \<Rightarrow> io_service_t list"
  IORegistryEntryInPlane :: "io_service_t \<Rightarrow> io_plane \<Rightarrow> bool"
  IORegistryEntryGetNameInPlane :: "io_service_t \<Rightarrow> io_plane \<Rightarrow> string option"
  IOServiceMatchPropertyTable :: "io_service_t option \<Rightarrow> cfvalue option \<Rightarrow> bool"

datatype CFStringEncoding = kCFStringEncodingUTF8 | kCFStringEncodingMacRoman

text \<open>
  CoreFoundation, and the helpers of this daemon that are not under \<open>src/\<close>
  (\<open>___CFURLCopyFileSystemRepresentation\<close>, \<open>_DASerializeDiskDescription\<close>).
  \<open>CFAllocatorAllocate n\<close> tells whether the allocator serves a request of \<open>n\<close> bytes;
  \<open>CFNumberCreate_now\<close> is \<open>CFNumberCreate\<close> applied to \<open>CFAbsoluteTimeGetCurrent( )\<close>.
\<close>

record corefoundation =
  CFRuntimeCreateInstance :: bool
  CFAllocatorAllocate :: "nat \<Rightarrow> bool"
  CFStringGetCString :: "cfvalue \<Rightarrow> CFStringEncoding \<Rightarrow> string option"
  CFStringCreateWithCString :: "string \<Rightarrow> CFStringEncoding \<Rightarrow> cfvalue option"
  CFURLCreateFromFileSystemRepresentation :: "string \<Rightarrow> cfvalue option"
  CFURLCopyFileSystemRepresentation :: "cfvalue \<Rightarrow> string option"
  CFNumberGetValue32 :: "cfvalue \<Rightarrow> 32 word"
  CFNumberGetValue64 :: "cfvalue \<Rightarrow> 64 word"
  CFNumberCreate_now :: "cfvalue option"
  DASerializeDiskDescription :: "cfdictionary \<Rightarrow> cfvalue option"

record passwd =
  pw_uid :: uid_t
  pw_gid :: gid_t

record statfs =
  f_mntonname :: string
  f_owner :: uid_t
  f_flags :: "32 word"

text \<open>\<open>getpwuid\<close>, and \<open>___statfs\<close> (\<open>None\<close> when it does not return 0).\<close>

record bsd =
  getpwuid :: "32 word \<Rightarrow> passwd option"
  statfs_call :: "string \<Rightarrow> statfs option"

definition CFDataCreate :: "corefoundation \<Rightarrow> 8 word list \<Rightarrow> cfvalue option" where
  "CFDataCreate cf bytes =
     (if CFAllocatorAllocate cf (length bytes) then Some (CFData bytes) else None)"

text \<open>\<open>CFDictionaryGetValue\<close> on an object taken out of a property bag. The source takes
  the object for a dictionary without looking; one that is none has no entry here.\<close>

fun CFDictionaryGetValue_sub :: "cfvalue \<Rightarrow> cfstring \<Rightarrow> cfvalue option" where
  "CFDictionaryGetValue_sub (CFDictionary m) key = fmlookup m key"
| "CFDictionaryGetValue_sub _ key = None"

text \<open>The image of a C string in memory, terminator included.\<close>

definition c_bytes :: "string \<Rightarrow> 8 word list" where
  "c_bytes s = map (\<lambda>c. of_nat (of_char c)) (c_str s) @ [0]"

section \<open>Byte order\<close>

text \<open>Byte \<open>i\<close> of a 64-bit value, byte 0 the least significant.\<close>

definition byte_of :: "64 word \<Rightarrow> nat \<Rightarrow> 8 word" where
  "byte_of v i = ucast (drop_bit (8 * i) v)"

definition bytes_le :: "64 word \<Rightarrow> 8 word list" where
  "bytes_le v = map (byte_of v) [0 ..< 8]"

definition bytes_be :: "64 word \<Rightarrow> 8 word list" where
  "bytes_be v = rev (bytes_le v)"

definition word_of_bytes_le :: "8 word list \<Rightarrow> 64 word" where
  "word_of_bytes_le bs = foldr (\<lambda>b w. ucast b OR push_bit 8 w) bs 0"

text \<open>Modelled from the spec: the macros of \<open>libkern/OSByteOrder.h\<close>, which is not
  under \<open>src/\<close>; the spec has the GUID byte-swapped to big-endian. \<open>OSSwapInt64\<close>
  reverses the eight bytes; \<open>OSSwapHostToBigInt64\<close> does so on a little-endian host and
  nothing on a big-endian one. \<open>memory_image\<close> is what \<open>( void * ) &value\<close> points to:
  the eight bytes in the order of the host.\<close>

definition OSSwapInt64 :: "64 word \<Rightarrow> 64 word" where
  "OSSwapInt64 v = word_of_bytes_le (bytes_be v)"

definition OSSwapHostToBigInt64 :: "da_header \<Rightarrow> 64 word \<Rightarrow> 64 word" where
  "OSSwapHostToBigInt64 h v = (if host_little_endian h then OSSwapInt64 v else v)"

definition memory_image :: "da_header \<Rightarrow> 64 word \<Rightarrow> 8 word list" where
  "memory_image h v = (if host_little_endian h then bytes_le v else bytes_be v)"

section \<open>Creation\<close>

text \<open>The statement \<open>CFDictionarySetValue( disk->_description, key, object )\<close>.\<close>

definition set_description :: "DADisk \<Rightarrow> cfstring \<Rightarrow> cfvalue \<Rightarrow> DADisk" where
  "set_description disk key object =
     disk\<lparr>disk_description := CFDictionarySetValue (disk_description disk) key object\<rparr>"

text \<open>The assignments of \<open>__DADiskCreate\<close> (DADisk.c:115-135). \<open>0755\<close> is octal.\<close>

definition DADiskCreate_fields :: "da_header \<Rightarrow> string \<Rightarrow> DADisk" where
  "DADiskCreate_fields h ident =
     \<lparr> disk_bypath = None, disk_claim = None, disk_context = None,
       disk_contextRe = None, disk_description = Map.empty,
       disk_device = None, disk_deviceNode = 0, disk_devicePath0 = None,
       disk_devicePath1 = None, disk_deviceUnit = - 1,
       disk_filesystem = None, disk_id = strdup ident, disk_media = None,
       disk_mode = 493, disk_options = 0, disk_serialization = None,
       disk_state = 0, disk_userEGID = GID_ADMIN h,
       disk_userEUID = UID_ROOT h, disk_userRGID = GID_ADMIN h,
       disk_userRUID = UID_ROOT h \<rparr>"

text \<open>\<open>__DADiskCreate\<close> (DADisk.c:105): \<open>NULL\<close> when the runtime has no instance to
  give; the id is put in the description when a data object could be made of it. The
  two assertions are taken to hold: the dictionary and the copy of the id are there.\<close>

definition DADiskCreate :: "da_header \<Rightarrow> corefoundation \<Rightarrow> string \<Rightarrow> DADisk option" where
  "DADiskCreate h cf ident =
     (if CFRuntimeCreateInstance cf then
        (case CFDataCreate cf (c_bytes ident) of
           Some data \<Rightarrow> Some (set_description (DADiskCreate_fields h ident) (da_key h kDADiskIDKey) data)
         | None \<Rightarrow> Some (DADiskCreate_fields h ident))
      else None)"

section \<open>A disk from a media object of the registry\<close>

text \<open>The recurring three lines of \<open>DADiskCreateFromIOMedia\<close>: read a property of the
  bag, leave through \<open>DADiskCreateFromIOMediaErr\<close> when it is \<open>NULL\<close>, store it in the
  description.\<close>

definition copy_property ::
  "da_header \<Rightarrow> cfdictionary \<Rightarrow> io_macro \<Rightarrow> cfstring \<Rightarrow> DADisk \<Rightarrow> DADisk option" where
  "copy_property h properties key description disk =
     (case CFDictionaryGetValue properties (CFSTR h key) of
        None \<Rightarrow> None
      | Some object \<Rightarrow> Some (set_description disk description object))"

text \<open>\<open>CFStringCompare( a, b, 0 ) == 0\<close>: the same string, character for character.\<close>

definition CFStringCompare_equal :: "cfvalue \<Rightarrow> cfvalue \<Rightarrow> bool" where
  "CFStringCompare_equal a b = (a = b)"

text \<open>The loop \<open>while ( ( e = IOIteratorNext( services ) ) ) { if ( stop ) break; ... }\<close>.\<close>

fun IOIteratorNext_until ::
  "(io_service_t \<Rightarrow> bool) \<Rightarrow> io_service_t list \<Rightarrow> io_service_t option" where
  "IOIteratorNext_until stop [] = None"
| "IOIteratorNext_until stop (e # es) =
     (if stop e then Some e else IOIteratorNext_until stop es)"

text \<open>A string object from a C string, UTF-8 first and MacRoman when that fails
  (DADisk.c:423, 438).\<close>

definition CFStringCreateWithCString_either ::
  "corefoundation \<Rightarrow> string \<Rightarrow> cfvalue option" where
  "CFStringCreateWithCString_either cf s =
     (case CFStringCreateWithCString cf s kCFStringEncodingUTF8 of
        Some object \<Rightarrow> Some object
      | None \<Rightarrow> CFStringCreateWithCString cf s kCFStringEncodingMacRoman)"

text \<open>DADisk.c:256-283, the disk object.\<close>

definition IOMedia_disk_object ::
  "da_header \<Rightarrow> corefoundation \<Rightarrow> io_service_t \<Rightarrow> cfdictionary \<Rightarrow> DADisk option" where
  "IOMedia_disk_object h cf media properties = do {
     object \<leftarrow> CFDictionaryGetValue properties (CFSTR h kIOBSDNameKey);
     name \<leftarrow> CFStringGetCString cf object kCFStringEncodingUTF8;
     let path0 = strcat PATH_DEV name;
     disk \<leftarrow> DADiskCreate h cf path0;
     device \<leftarrow> CFURLCreateFromFileSystemRepresentation cf path0;
     let path1 = strcat (strcat PATH_DEV ''r'') name;
     Some (set_description
             (disk\<lparr>disk_device := Some device, disk_devicePath0 := Some (strdup path0),
                    disk_devicePath1 := Some (strdup path1), disk_media := Some media\<rparr>)
             (da_key h kDADiskDescriptionVolumeNetworkKey) kCFBooleanFalse)
   }"

text \<open>DADisk.c:289-332, block size, BSD name, node and unit.\<close>

definition IOMedia_media_bsd ::
  "da_header \<Rightarrow> corefoundation \<Rightarrow> cfdictionary \<Rightarrow> DADisk \<Rightarrow> DADisk option" where
  "IOMedia_media_bsd h cf properties disk0 = do {
     disk1 \<leftarrow> copy_property h properties kIOMediaPreferredBlockSizeKey
                (da_key h kDADiskDescriptionMediaBlockSizeKey) disk0;
     disk2 \<leftarrow> copy_property h properties kIOBSDNameKey (da_key h kDADiskDescriptionMediaBSDNameKey) disk1;
     major \<leftarrow> CFDictionaryGetValue properties (CFSTR h kIOBSDMajorKey);
     let disk3 = set_description disk2 (da_key h kDADiskDescriptionMediaBSDMajorKey) major;
     minor \<leftarrow> CFDictionaryGetValue properties (CFSTR h kIOBSDMinorKey);
     let disk4 = set_description disk3 (da_key h kDADiskDescriptionMediaBSDMinorKey) minor;
     let disk5 = disk4\<lparr>disk_deviceNode :=
                   makedev h (CFNumberGetValue32 cf major) (CFNumberGetValue32 cf minor)\<rparr>;
     unit \<leftarrow> CFDictionaryGetValue properties (CFSTR h kIOBSDUnitKey);
     let disk6 = set_description disk5 (da_key h kDADiskDescriptionMediaBSDUnitKey) unit;
     Some (disk6\<lparr>disk_deviceUnit := CFNumberGetValue32 cf unit\<rparr>)
   }"

text \<open>DADisk.c:370-405, the kind of the media and, for a DVD or a CD, its type.\<close>

definition IOMedia_media_kind ::
  "da_header \<Rightarrow> iokit \<Rightarrow> io_service_t \<Rightarrow> cfdictionary \<Rightarrow> DADisk \<Rightarrow> DADisk option" where
  "IOMedia_media_kind h io media properties disk =
     (if IOObjectConformsTo io media kIODVDMediaClass then
        copy_property h properties kIODVDMediaTypeKey (da_key h kDADiskDescriptionMediaTypeKey)
          (set_description disk (da_key h kDADiskDescriptionMediaKindKey)
             (CFString (CFSTR h kIODVDMediaClass)))
      else if IOObjectConformsTo io media kIOCDMediaClass then
        copy_property h properties kIOCDMediaTypeKey (da_key h kDADiskDescriptionMediaTypeKey)
          (set_description disk (da_key h kDADiskDescriptionMediaKindKey)
             (CFString (CFSTR h kIOCDMediaClass)))
      else
        Some (set_description disk (da_key h kDADiskDescriptionMediaKindKey)
                (CFString (CFSTR h kIOMediaClass))))"

text \<open>DADisk.c:338-414, content, ejectable, icon, kind and leaf.\<close>

definition IOMedia_media_content ::
  "da_header \<Rightarrow> iokit \<Rightarrow> io_service_t \<Rightarrow> cfdictionary \<Rightarrow> DADisk \<Rightarrow> DADisk option" where
  "IOMedia_media_content h io media properties disk0 = do {
     disk1 \<leftarrow> copy_property h properties kIOMediaContentKey
                (da_key h kDADiskDescriptionMediaContentKey) disk0;
     disk2 \<leftarrow> copy_property h properties kIOMediaEjectableKey
                (da_key h kDADiskDescriptionMediaEjectableKey) disk1;
     icon \<leftarrow> IORegistryEntrySearchCFProperty io media kIOServicePlane (CFSTR h kIOMediaIconKey);
     disk3 \<leftarrow> IOMedia_media_kind h io media properties
                (set_description disk2 (da_key h kDADiskDescriptionMediaIconKey) icon);
     copy_property h properties kIOMediaLeafKey (da_key h kDADiskDescriptionMediaLeafKey) disk3
   }"

text \<open>DADisk.c:420-443, the name and the registry path of the media. The path is asked
  for in the device tree plane first and in the service plane when that fails.\<close>

definition IOMedia_media_name ::
  "da_header \<Rightarrow> iokit \<Rightarrow> corefoundation \<Rightarrow> io_service_t \<Rightarrow> DADisk \<Rightarrow> DADisk option" where
  "IOMedia_media_name h io cf media disk = do {
     name \<leftarrow> IORegistryEntryGetName io media;
     object1 \<leftarrow> CFStringCreateWithCString_either cf name;
     path \<leftarrow> (case IORegistryEntryGetPath io media kIODeviceTreePlane of
                Some p \<Rightarrow> Some p
              | None \<Rightarrow> IORegistryEntryGetPath io media kIOServicePlane);
     object2 \<leftarrow> CFStringCreateWithCString_either cf path;
     Some (set_description
             (set_description disk (da_key h kDADiskDescriptionMediaNameKey) object1)
             (da_key h kDADiskDescriptionMediaPathKey) object2)
   }"

text \<open>DADisk.c:449-479, removable, size, whole and writable.\<close>

definition IOMedia_media_flags :: "da_header \<Rightarrow> cfdictionary \<Rightarrow> DADisk \<Rightarrow> DADisk option" where
  "IOMedia_media_flags h properties disk0 = do {
     disk1 \<leftarrow> copy_property h properties kIOMediaRemovableKey
                (da_key h kDADiskDescriptionMediaRemovableKey) disk0;
     disk2 \<leftarrow> copy_property h properties kIOMediaSizeKey (da_key h kDADiskDescriptionMediaSizeKey) disk1;
     disk3 \<leftarrow> copy_property h properties kIOMediaWholeKey (da_key h kDADiskDescriptionMediaWholeKey) disk2;
     copy_property h properties kIOMediaWritableKey (da_key h kDADiskDescriptionMediaWritableKey) disk3
   }"

text \<open>DADisk.c:515-551, the protocol characteristics of the device.\<close>

definition IOMedia_device_protocol :: "da_header \<Rightarrow> cfdictionary \<Rightarrow> DADisk \<Rightarrow> DADisk" where
  "IOMedia_device_protocol h properties disk =
     (case CFDictionaryGetValue properties (CFSTR h kIOPropertyProtocolCharacteristicsKey) of
        None \<Rightarrow> disk
      | Some sub \<Rightarrow>
          let disk1 =
            (case CFDictionaryGetValue_sub sub
                    (CFSTR h kIOPropertyPhysicalInterconnectLocationKey) of
               None \<Rightarrow> disk
             | Some object \<Rightarrow>
                 if CFStringCompare_equal object (CFString (CFSTR h kIOPropertyInternalKey))
                 then set_description disk (da_key h kDADiskDescriptionDeviceInternalKey) kCFBooleanTrue
                 else if CFStringCompare_equal object (CFString (CFSTR h kIOPropertyExternalKey))
                 then set_description disk (da_key h kDADiskDescriptionDeviceInternalKey) kCFBooleanFalse
                 else disk)
          in (case CFDictionaryGetValue_sub sub (CFSTR h kIOPropertyPhysicalInterconnectTypeKey) of
                None \<Rightarrow> disk1
              | Some object \<Rightarrow>
                  set_description disk1 (da_key h kDADiskDescriptionDeviceProtocolKey) object))"

text \<open>An optional fact of a sub-bag: stored when it is there.\<close>

definition copy_optional :: "da_header \<Rightarrow> cfvalue \<Rightarrow> io_macro \<Rightarrow> cfstring \<Rightarrow> DADisk \<Rightarrow> DADisk" where
  "copy_optional h sub key description disk =
     (case CFDictionaryGetValue_sub sub (CFSTR h key) of
        None \<Rightarrow> disk
      | Some object \<Rightarrow> set_description disk description object)"

text \<open>DADisk.c:557-593, model, revision and vendor of the device.\<close>

definition IOMedia_device_model :: "da_header \<Rightarrow> cfdictionary \<Rightarrow> DADisk \<Rightarrow> DADisk" where
  "IOMedia_device_model h properties disk =
     (case CFDictionaryGetValue properties (CFSTR h kIOPropertyDeviceCharacteristicsKey) of
        None \<Rightarrow> disk
      | Some sub \<Rightarrow>
          copy_optional h sub kIOPropertyVendorNameKey (da_key h kDADiskDescriptionDeviceVendorKey)
            (copy_optional h sub kIOPropertyProductRevisionLevelKey
               (da_key h kDADiskDescriptionDeviceRevisionKey)
               (copy_optional h sub kIOPropertyProductNameKey
                  (da_key h kDADiskDescriptionDeviceModelKey) disk)))"

text \<open>DADisk.c:599-606, the registry path of the device.\<close>

definition IOMedia_device_path ::
  "da_header \<Rightarrow> iokit \<Rightarrow> corefoundation \<Rightarrow> io_service_t \<Rightarrow> DADisk \<Rightarrow> DADisk option" where
  "IOMedia_device_path h io cf device disk = do {
     path \<leftarrow> IORegistryEntryGetPath io device kIOServicePlane;
     object \<leftarrow> CFStringCreateWithCString cf path kCFStringEncodingUTF8;
     Some (set_description disk (da_key h kDADiskDescriptionDevicePathKey) object)
   }"

text \<open>DADisk.c:612-622, the unit of the device.\<close>

definition IOMedia_device_unit :: "da_header \<Rightarrow> iokit \<Rightarrow> io_service_t \<Rightarrow> DADisk \<Rightarrow> DADisk" where
  "IOMedia_device_unit h io device disk =
     (case IORegistryEntrySearchCFProperty io device kIOServicePlane (CFSTR_lit ''IOUnit'') of
        None \<Rightarrow> disk
      | Some object \<Rightarrow> set_description disk (da_key h kDADiskDescriptionDeviceUnitKey) object)"

text \<open>DADisk.c:628-648, the GUID of the device.\<close>

definition IOMedia_device_GUID ::
  "da_header \<Rightarrow> iokit \<Rightarrow> corefoundation \<Rightarrow> io_service_t \<Rightarrow> DADisk \<Rightarrow> DADisk option" where
  "IOMedia_device_GUID h io cf device disk =
     (case IORegistryEntrySearchCFProperty io device kIOServicePlane (CFSTR_lit ''GUID'') of
        None \<Rightarrow> Some disk
      | Some object \<Rightarrow>
          let value = OSSwapHostToBigInt64 h (CFNumberGetValue64 cf object)
          in (case CFDataCreate cf (memory_image h value) of
                None \<Rightarrow> None
              | Some data \<Rightarrow>
                  Some (set_description disk (da_key h kDADiskDescriptionDeviceGUIDKey) data)))"

text \<open>DADisk.c:657-701, name and path of the bus, when an ancestor of the device is in
  the device tree plane.\<close>

definition IOMedia_bus ::
  "da_header \<Rightarrow> iokit \<Rightarrow> corefoundation \<Rightarrow> io_service_t \<Rightarrow> DADisk \<Rightarrow> DADisk option" where
  "IOMedia_bus h io cf device disk =
     (case IOIteratorNext_until (\<lambda>bus. IORegistryEntryInPlane io bus kIODeviceTreePlane)
             (IORegistryEntryCreateIterator io device kIOServicePlane) of
        None \<Rightarrow> Some disk
      | Some bus \<Rightarrow> do {
          name \<leftarrow> IORegistryEntryGetNameInPlane io bus kIODeviceTreePlane;
          object1 \<leftarrow> CFStringCreateWithCString cf name kCFStringEncodingUTF8;
          path \<leftarrow> IORegistryEntryGetPath io bus kIODeviceTreePlane;
          object2 \<leftarrow> CFStringCreateWithCString cf path kCFStringEncodingUTF8;
          Some (set_description
                  (set_description disk (da_key h kDADiskDescriptionBusNameKey) object1)
                  (da_key h kDADiskDescriptionBusPathKey) object2)
        })"

text \<open>DADisk.c:707-713, the time of appearance.\<close>

definition IOMedia_appearance_time :: "da_header \<Rightarrow> corefoundation \<Rightarrow> DADisk \<Rightarrow> DADisk option" where
  "IOMedia_appearance_time h cf disk =
     (case CFNumberCreate_now cf of
        None \<Rightarrow> None
      | Some object \<Rightarrow> Some (set_description disk (da_key h kDADiskDescriptionAppearanceTimeKey) object))"

text \<open>DADisk.c:719-734, mount automatic?\<close>

definition IOMedia_mount_automatic ::
  "da_header \<Rightarrow> iokit \<Rightarrow> io_service_t \<Rightarrow> DADisk \<Rightarrow> DADisk" where
  "IOMedia_mount_automatic h io media disk =
     (case IORegistryEntrySearchCFProperty io media kIOServicePlane
             (CFSTR_lit ''autodiskmount'') of
        None \<Rightarrow> disk\<lparr>disk_options := disk_options disk OR kDADiskOptionMountAutomatic h\<rparr>
      | Some object \<Rightarrow>
          if object = kCFBooleanTrue
          then disk\<lparr>disk_options :=
                      disk_options disk OR
                        (kDADiskOptionMountAutomatic h OR kDADiskOptionMountAutomaticNoDefer h)\<rparr>
          else disk)"

text \<open>DADisk.c:740-751, eject upon logout?\<close>

definition IOMedia_eject_upon_logout ::
  "da_header \<Rightarrow> iokit \<Rightarrow> io_service_t \<Rightarrow> DADisk \<Rightarrow> DADisk" where
  "IOMedia_eject_upon_logout h io device disk =
     (if IORegistryEntrySearchCFProperty io device kIOServicePlane
           (CFSTR_lit ''eject-upon-logout'') = Some kCFBooleanTrue
      then disk\<lparr>disk_options := disk_options disk OR kDADiskOptionEjectUponLogout h\<rparr>
      else disk)"

text \<open>DADisk.c:757-796, the owner.\<close>

definition IOMedia_owner ::
  "da_header \<Rightarrow> iokit \<Rightarrow> corefoundation \<Rightarrow> bsd \<Rightarrow> io_service_t \<Rightarrow> DADisk \<Rightarrow> DADisk" where
  "IOMedia_owner h io cf os device disk =
     (let disk1 =
            (if CFDictionaryGetValue (disk_description disk)
                  (da_key h kDADiskDescriptionMediaRemovableKey) = Some kCFBooleanTrue
             then disk\<lparr>disk_userRGID := GID_UNKNOWN h, disk_userRUID := UID_UNKNOWN h\<rparr>
             else disk);
          disk2 =
            (if CFDictionaryGetValue (disk_description disk1)
                  (da_key h kDADiskDescriptionDeviceInternalKey) = Some kCFBooleanFalse
             then disk1\<lparr>disk_userRGID := GID_UNKNOWN h, disk_userRUID := UID_UNKNOWN h\<rparr>
             else disk1)
      in case IORegistryEntrySearchCFProperty io device kIOServicePlane
                (CFSTR_lit ''owner-uid'') of
           None \<Rightarrow> disk2
         | Some object \<Rightarrow>
             (case getpwuid os (CFNumberGetValue32 cf object) of
                None \<Rightarrow> disk2
              | Some user \<Rightarrow>
                  disk2\<lparr>disk_userEGID := pw_gid user, disk_userEUID := pw_uid user,
                         disk_userRGID := pw_gid user, disk_userRUID := pw_uid user\<rparr>))"

text \<open>DADisk.c:798-812, the mode.\<close>

definition IOMedia_owner_mode ::
  "iokit \<Rightarrow> corefoundation \<Rightarrow> io_service_t \<Rightarrow> DADisk \<Rightarrow> DADisk" where
  "IOMedia_owner_mode io cf device disk =
     (case IORegistryEntrySearchCFProperty io device kIOServicePlane
             (CFSTR_lit ''owner-mode'') of
        None \<Rightarrow> disk
      | Some object \<Rightarrow> disk\<lparr>disk_mode := ucast (CFNumberGetValue32 cf object)\<rparr>)"

text \<open>The description of the media, DADisk.c:289-479.\<close>

definition IOMedia_media ::
  "da_header \<Rightarrow> iokit \<Rightarrow> corefoundation \<Rightarrow> io_service_t \<Rightarrow> cfdictionary \<Rightarrow> DADisk
     \<Rightarrow> DADisk option" where
  "IOMedia_media h io cf media properties disk0 = do {
     disk1 \<leftarrow> IOMedia_media_bsd h cf properties disk0;
     disk2 \<leftarrow> IOMedia_media_content h io media properties disk1;
     disk3 \<leftarrow> IOMedia_media_name h io cf media disk2;
     IOMedia_media_flags h properties disk3
   }"

text \<open>The description of the device, DADisk.c:508-651.\<close>

definition IOMedia_device ::
  "da_header \<Rightarrow> iokit \<Rightarrow> corefoundation \<Rightarrow> io_service_t \<Rightarrow> DADisk \<Rightarrow> DADisk option" where
  "IOMedia_device h io cf device disk0 = do {
     properties \<leftarrow> IORegistryEntryCreateCFProperties io device;
     disk1 \<leftarrow> IOMedia_device_path h io cf device
                (IOMedia_device_model h properties (IOMedia_device_protocol h properties disk0));
     IOMedia_device_GUID h io cf device (IOMedia_device_unit h io device disk1)
   }"

text \<open>Options and owner, DADisk.c:719-812; nothing here can fail.\<close>

definition IOMedia_state ::
  "da_header \<Rightarrow> iokit \<Rightarrow> corefoundation \<Rightarrow> bsd \<Rightarrow> io_service_t \<Rightarrow> io_service_t \<Rightarrow> DADisk
     \<Rightarrow> DADisk" where
  "IOMedia_state h io cf os media device disk =
     IOMedia_owner_mode io cf device
       (IOMedia_owner h io cf os device
          (IOMedia_eject_upon_logout h io device
             (IOMedia_mount_automatic h io media disk)))"

text \<open>DADisk.c:488-502, the first ancestor of the media that is a block storage
  device.\<close>

definition IOMedia_device_object :: "iokit \<Rightarrow> io_service_t \<Rightarrow> io_service_t option" where
  "IOMedia_device_object io media =
     IOIteratorNext_until
       (\<lambda>device. IOObjectConformsTo io device kIOBlockStorageDeviceClass)
       (IORegistryEntryCreateIterator io media kIOServicePlane)"

text \<open>\<open>DADiskCreateFromIOMedia\<close> (DADisk.c:229). Every \<open>goto DADiskCreateFromIOMediaErr\<close>
  is a \<open>None\<close>: the label releases what was taken and returns \<open>NULL\<close>.\<close>

definition DADiskCreateFromIOMedia ::
  "da_header \<Rightarrow> iokit \<Rightarrow> corefoundation \<Rightarrow> bsd \<Rightarrow> io_service_t \<Rightarrow> DADisk option" where
  "DADiskCreateFromIOMedia h io cf os media = do {
     properties \<leftarrow> IORegistryEntryCreateCFProperties io media;
     disk0 \<leftarrow> IOMedia_disk_object h cf media properties;
     disk1 \<leftarrow> IOMedia_media h io cf media properties disk0;
     device \<leftarrow> IOMedia_device_object io media;
     disk2 \<leftarrow> IOMedia_device h io cf device disk1;
     disk3 \<leftarrow> IOMedia_bus h io cf device disk2;
     disk4 \<leftarrow> IOMedia_appearance_time h cf disk3;
     Some (IOMedia_state h io cf os media device disk4)
   }"

section \<open>A disk from the path of a mounted volume\<close>

text \<open>\<open>DADiskCreateFromVolumePath\<close> (DADisk.c:833). The result is the pointer \<open>disk\<close>,
  \<open>NULL\<close> until \<open>__DADiskCreate\<close> has returned an object.\<close>

definition DADiskCreateFromVolumePath ::
  "da_header \<Rightarrow> corefoundation \<Rightarrow> bsd \<Rightarrow> cfvalue option \<Rightarrow> DADisk option" where
  "DADiskCreateFromVolumePath h cf os path =
     (case path of
        None \<Rightarrow> None
      | Some url \<Rightarrow>
          (case CFURLCopyFileSystemRepresentation cf url of
             None \<Rightarrow> None
           | Some fsrep \<Rightarrow>
               (case statfs_call os fsrep of
                  None \<Rightarrow> None
                | Some fs \<Rightarrow>
                    (case DADiskCreate h cf (f_mntonname fs) of
                       None \<Rightarrow> None
                     | Some disk0 \<Rightarrow>
                         let disk1 = disk0\<lparr>disk_bypath := Some url\<rparr>;
                             disk2 = set_description disk1 (da_key h kDADiskDescriptionVolumePathKey) url;
                             disk3 = set_description disk2
                                       (da_key h kDADiskDescriptionVolumeMountableKey) kCFBooleanTrue;
                             disk4 =
                               (if f_flags fs AND MNT_LOCAL h \<noteq> 0
                                then set_description disk3
                                       (da_key h kDADiskDescriptionVolumeNetworkKey) kCFBooleanFalse
                                else set_description disk3
                                       (da_key h kDADiskDescriptionVolumeNetworkKey) kCFBooleanTrue);
                             disk5 = disk4\<lparr>disk_state :=
                                       disk_state disk4 OR kDADiskStateStagedProbe h\<rparr>;
                             disk6 = disk5\<lparr>disk_state :=
                                       disk_state disk5 OR kDADiskStateStagedPeek h\<rparr>;
                             disk7 = disk6\<lparr>disk_state :=
                                       disk_state disk6 OR kDADiskStateStagedRepair h\<rparr>;
                             disk8 = disk7\<lparr>disk_state :=
                                       disk_state disk7 OR kDADiskStateStagedApprove h\<rparr>;
                             disk9 = disk8\<lparr>disk_state :=
                                       disk_state disk8 OR kDADiskStateStagedAuthorize h\<rparr>;
                             disk10 = disk9\<lparr>disk_state :=
                                       disk_state disk9 OR kDADiskStateStagedMount h\<rparr>
                         in (case getpwuid os (f_owner fs) of
                               None \<Rightarrow> Some disk10
                             | Some user \<Rightarrow>
                                 Some (disk10\<lparr>disk_userEGID := pw_gid user,
                                              disk_userEUID := pw_uid user,
                                              disk_userRGID := pw_gid user,
                                              disk_userRUID := pw_uid user\<rparr>))))))"

section \<open>Accessors and mutators\<close>

text \<open>\<open>DADiskGetDescription\<close> (DADisk.c:931).\<close>

definition DADiskGetDescription :: "DADisk \<Rightarrow> cfstring \<Rightarrow> cfvalue option" where
  "DADiskGetDescription disk description =
     CFDictionaryGetValue (disk_description disk) description"

text \<open>\<open>DADiskGetOption\<close> (DADisk.c:961) and \<open>DADiskGetState\<close> (DADisk.c:981).\<close>

definition DADiskGetOption :: "DADisk \<Rightarrow> DADiskOptions \<Rightarrow> bool" where
  "DADiskGetOption disk option = (if disk_options disk AND option \<noteq> 0 then True else False)"

definition DADiskGetState :: "DADisk \<Rightarrow> DADiskState \<Rightarrow> bool" where
  "DADiskGetState disk state = (if disk_state disk AND state \<noteq> 0 then True else False)"

text \<open>\<open>DADiskGetSerialization\<close> (DADisk.c:971): the value returned and the disk after the
  call. \<open>_DASerializeDiskDescription\<close> is not under \<open>src/\<close>; it is the parameter
  \<open>DASerializeDiskDescription\<close>, \<open>None\<close> when it returns \<open>NULL\<close>.\<close>

definition DADiskGetSerialization ::
  "corefoundation \<Rightarrow> DADisk \<Rightarrow> cfvalue option \<times> DADisk" where
  "DADiskGetSerialization cf disk =
     (let disk1 =
            (if disk_serialization disk = None
             then disk\<lparr>disk_serialization :=
                         DASerializeDiskDescription cf (disk_description disk)\<rparr>
             else disk)
      in (disk_serialization disk1, disk1))"

text \<open>\<open>DADiskSetDescription\<close> (DADisk.c:1181); a \<open>NULL\<close> value removes the key.\<close>

definition DADiskSetDescription :: "DADisk \<Rightarrow> cfstring \<Rightarrow> cfvalue option \<Rightarrow> DADisk" where
  "DADiskSetDescription disk description v =
     (let disk1 =
            (case v of
               Some object \<Rightarrow>
                 disk\<lparr>disk_description :=
                         CFDictionarySetValue (disk_description disk) description object\<rparr>
             | None \<Rightarrow>
                 disk\<lparr>disk_description :=
                         CFDictionaryRemoveValue (disk_description disk) description\<rparr>)
      in if disk_serialization disk1 \<noteq> None
         then disk1\<lparr>disk_serialization := None\<rparr>
         else disk1)"

text \<open>\<open>DADiskSetOptions\<close> (DADisk.c:1222), \<open>DADiskSetState\<close> (DADisk.c:1228) and the
  setters of the one-word fields.\<close>

definition DADiskSetOptions :: "DADisk \<Rightarrow> DADiskOptions \<Rightarrow> bool \<Rightarrow> DADisk" where
  "DADiskSetOptions disk options v =
     (let disk1 = disk\<lparr>disk_options := disk_options disk AND NOT options\<rparr>
      in disk1\<lparr>disk_options := disk_options disk1 OR (if v then options else 0)\<rparr>)"

definition DADiskSetState :: "DADisk \<Rightarrow> DADiskState \<Rightarrow> bool \<Rightarrow> DADisk" where
  "DADiskSetState disk state v =
     (let disk1 = disk\<lparr>disk_state := disk_state disk AND NOT state\<rparr>
      in disk1\<lparr>disk_state := disk_state disk1 OR (if v then state else 0)\<rparr>)"

definition DADiskSetUserEGID :: "DADisk \<Rightarrow> gid_t \<Rightarrow> DADisk" where
  "DADiskSetUserEGID disk userGID = disk\<lparr>disk_userEGID := userGID\<rparr>"

definition DADiskSetUserEUID :: "DADisk \<Rightarrow> uid_t \<Rightarrow> DADisk" where
  "DADiskSetUserEUID disk userUID = disk\<lparr>disk_userEUID := userUID\<rparr>"

definition DADiskSetBypath :: "DADisk \<Rightarrow> cfvalue option \<Rightarrow> DADisk" where
  "DADiskSetBypath disk bypath =
     (let disk1 = (if disk_bypath disk \<noteq> None then disk\<lparr>disk_bypath := None\<rparr> else disk)
      in case bypath of None \<Rightarrow> disk1 | Some url \<Rightarrow> disk1\<lparr>disk_bypath := Some url\<rparr>)"

text \<open>The calls a client makes on a disk it holds, one after the other; the values the
  getters return are dropped, the disk is threaded through.\<close>

datatype DADiskCall =
    CallSetDescription cfstring "cfvalue option"
  | CallGetSerialization
  | CallSetOptions DADiskOptions bool
  | CallSetState DADiskState bool
  | CallSetUserEGID gid_t
  | CallSetUserEUID uid_t
  | CallSetBypath "cfvalue option"

fun DADiskCall_apply :: "corefoundation \<Rightarrow> DADisk \<Rightarrow> DADiskCall \<Rightarrow> DADisk" where
  "DADiskCall_apply cf disk (CallSetDescription k v) = DADiskSetDescription disk k v"
| "DADiskCall_apply cf disk CallGetSerialization = snd (DADiskGetSerialization cf disk)"
| "DADiskCall_apply cf disk (CallSetOptions options v) = DADiskSetOptions disk options v"
| "DADiskCall_apply cf disk (CallSetState state v) = DADiskSetState disk state v"
| "DADiskCall_apply cf disk (CallSetUserEGID g) = DADiskSetUserEGID disk g"
| "DADiskCall_apply cf disk (CallSetUserEUID u) = DADiskSetUserEUID disk u"
| "DADiskCall_apply cf disk (CallSetBypath p) = DADiskSetBypath disk p"

definition DADiskCalls :: "corefoundation \<Rightarrow> DADisk \<Rightarrow> DADiskCall list \<Rightarrow> DADisk" where
  "DADiskCalls cf disk calls = foldl (DADiskCall_apply cf) disk calls"

text \<open>The serialization is \<open>NULL\<close> or what the serializer makes of the description the
  disk has now.\<close>

definition serialization_current :: "corefoundation \<Rightarrow> DADisk \<Rightarrow> bool" where
  "serialization_current cf disk =
     (disk_serialization disk = None \<or>
      disk_serialization disk = DASerializeDiskDescription cf (disk_description disk))"

section \<open>Matching\<close>

text \<open>\<open>__DADiskMatch\<close> (DADisk.c:186), the applier that \<open>DADiskMatch\<close> hands to
  \<open>CFDictionaryApplyFunction\<close>. The context is the pointer it may set to \<open>NULL\<close>. The
  test \<open>CFEqual( key, CFSTR( kIOPropertyMatchKey ) )\<close> is of the characters of the key.\<close>

definition DADiskMatch_applier ::
  "da_header \<Rightarrow> iokit \<Rightarrow> cfstring \<Rightarrow> cfvalue \<Rightarrow> DADisk option \<Rightarrow> DADisk option" where
  "DADiskMatch_applier h io key v context =
     (case context of
        None \<Rightarrow> None
      | Some disk \<Rightarrow>
          let compare = CFDictionaryGetValue (disk_description disk) key
          in if key = CFSTR h kIOPropertyMatchKey then
               (if IOServiceMatchPropertyTable io (disk_media disk) compare = False
                then None else Some disk)
             else
               (case compare of
                  None \<Rightarrow> None
                | Some object \<Rightarrow> if CFEqual v object = False then None else Some disk))"

text \<open>\<open>CFDictionaryApplyFunction\<close>: the applier is called once for each pair of the bag;
  the list is the bag in the order of the calls.\<close>

fun CFDictionaryApplyFunction ::
  "(cfstring \<times> cfvalue) list \<Rightarrow> (cfstring \<Rightarrow> cfvalue \<Rightarrow> 'c \<Rightarrow> 'c) \<Rightarrow> 'c \<Rightarrow> 'c" where
  "CFDictionaryApplyFunction [] applier context = context"
| "CFDictionaryApplyFunction ((key, v) # rest) applier context =
     CFDictionaryApplyFunction rest applier (applier key v context)"

text \<open>\<open>DADiskMatch\<close> (DADisk.c:1106).\<close>

definition DADiskMatch :: "da_header \<Rightarrow> iokit \<Rightarrow> DADisk \<Rightarrow> (cfstring \<times> cfvalue) list \<Rightarrow> bool" where
  "DADiskMatch h io disk match =
     (case CFDictionaryApplyFunction match (DADiskMatch_applier h io) (Some disk) of
        Some _ \<Rightarrow> True
      | None \<Rightarrow> False)"

section \<open>A concrete machine\<close>

text \<open>
  One instance of every parameter, for the closed examples further down: a little-endian
  host, the media \<open>disk2\<close> of the spec's end-to-end property (entry 1) below a block
  storage device (entry 2) below a root entry of the device tree (entry 3). The media is
  not in the device tree plane, so its path is only had in the service plane. The
  arguments are the property bag of the media, the interconnect location of the device,
  and the properties that a search from the media or the device upwards finds. The
  registry's check of a table of properties accepts, for the media, a table whose
  \<open>Removable\<close> entry is that of the media. The characters of the string macros come
  first.
\<close>

fun demo_io_string :: "io_macro \<Rightarrow> string" where
  "demo_io_string kIOBSDNameKey = ''BSD Name''"
| "demo_io_string kIOBSDMajorKey = ''BSD Major''"
| "demo_io_string kIOBSDMinorKey = ''BSD Minor''"
| "demo_io_string kIOBSDUnitKey = ''BSD Unit''"
| "demo_io_string kIOMediaPreferredBlockSizeKey = ''Preferred Block Size''"
| "demo_io_string kIOMediaContentKey = ''Content''"
| "demo_io_string kIOMediaEjectableKey = ''Ejectable''"
| "demo_io_string kIOMediaIconKey = ''IOMediaIcon''"
| "demo_io_string kIOMediaLeafKey = ''Leaf''"
| "demo_io_string kIOMediaRemovableKey = ''Removable''"
| "demo_io_string kIOMediaSizeKey = ''Size''"
| "demo_io_string kIOMediaWholeKey = ''Whole''"
| "demo_io_string kIOMediaWritableKey = ''Writable''"
| "demo_io_string kIODVDMediaTypeKey = ''Type''"
| "demo_io_string kIOCDMediaTypeKey = ''Type''"
| "demo_io_string kIODVDMediaClass = ''IODVDMedia''"
| "demo_io_string kIOCDMediaClass = ''IOCDMedia''"
| "demo_io_string kIOMediaClass = ''IOMedia''"
| "demo_io_string kIOBlockStorageDeviceClass = ''IOBlockStorageDevice''"
| "demo_io_string kIOPropertyProtocolCharacteristicsKey = ''Protocol Characteristics''"
| "demo_io_string kIOPropertyPhysicalInterconnectLocationKey =
     ''Physical Interconnect Location''"
| "demo_io_string kIOPropertyInternalKey = ''Internal''"
| "demo_io_string kIOPropertyExternalKey = ''External''"
| "demo_io_string kIOPropertyPhysicalInterconnectTypeKey = ''Physical Interconnect''"
| "demo_io_string kIOPropertyDeviceCharacteristicsKey = ''Device Characteristics''"
| "demo_io_string kIOPropertyProductNameKey = ''Product Name''"
| "demo_io_string kIOPropertyProductRevisionLevelKey = ''Product Revision Level''"
| "demo_io_string kIOPropertyVendorNameKey = ''Vendor Name''"
| "demo_io_string kIOPropertyMatchKey = ''IOPropertyMatch''"

definition demo_header :: da_header where
  "demo_header =
     \<lparr> GID_ADMIN = 80, UID_ROOT = 0, GID_UNKNOWN = 99, UID_UNKNOWN = 99,
       kDADiskOptionEjectUponLogout = 0x00000001,
       kDADiskOptionMountAutomatic = 0x00000010,
       kDADiskOptionMountAutomaticNoDefer = 0x00000020,
       kDADiskStateStagedProbe = 0x00010000,
       kDADiskStateStagedPeek = 0x00020000,
       kDADiskStateStagedRepair = 0x00040000,
       kDADiskStateStagedApprove = 0x00080000,
       kDADiskStateStagedAuthorize = 0x00100000,
       kDADiskStateStagedMount = 0x00200000,
       MNT_LOCAL = 0x00001000,
       makedev = (\<lambda>major minor. push_bit 24 major OR minor),
       host_little_endian = True,
       io_string = demo_io_string,
       da_string = Abs_da_names demo_da_string \<rparr>"

definition demo_media_properties :: "bool \<Rightarrow> cfdictionary" where
  "demo_media_properties removable =
     map_of
       [(CFSTR_lit ''BSD Name'', CFString (CFSTR_lit ''disk2'')),
        (CFSTR_lit ''Preferred Block Size'', CFNumber 512),
        (CFSTR_lit ''BSD Major'', CFNumber 14),
        (CFSTR_lit ''BSD Minor'', CFNumber 2),
        (CFSTR_lit ''BSD Unit'', CFNumber 2),
        (CFSTR_lit ''Content'', CFString (CFSTR_lit ''GUID_partition_scheme'')),
        (CFSTR_lit ''Ejectable'', kCFBooleanFalse),
        (CFSTR_lit ''Leaf'', kCFBooleanTrue),
        (CFSTR_lit ''Removable'', CFBoolean removable),
        (CFSTR_lit ''Size'', CFNumber 10000000000),
        (CFSTR_lit ''Whole'', kCFBooleanTrue),
        (CFSTR_lit ''Writable'', kCFBooleanTrue)]"

definition demo_device_properties :: "string \<Rightarrow> cfdictionary" where
  "demo_device_properties location =
     map_of
       [(CFSTR_lit ''Protocol Characteristics'',
         CFDictionary (fmap_of_list
           [(CFSTR_lit ''Physical Interconnect Location'', CFString (CFSTR_lit location)),
            (CFSTR_lit ''Physical Interconnect'', CFString (CFSTR_lit ''SATA''))]))]"

definition demo_iokit ::
  "cfdictionary \<Rightarrow> string \<Rightarrow> (cfstring \<Rightarrow> cfvalue option) \<Rightarrow> iokit" where
  "demo_iokit properties location hints =
     \<lparr> IORegistryEntryCreateCFProperties =
         (\<lambda>e. if e = 1 then Some properties
              else if e = 2 then Some (demo_device_properties location)
              else None),
       IORegistryEntrySearchCFProperty =
         (\<lambda>e plane key.
            if key = CFSTR_lit ''IOMediaIcon'' then Some (CFOther 0) else hints key),
       IOObjectConformsTo =
         (\<lambda>e c. (e = 1 \<and> c = kIOMediaClass) \<or> (e = 2 \<and> c = kIOBlockStorageDeviceClass)),
       IORegistryEntryGetName = (\<lambda>e. if e = 1 then Some ''Macintosh HD'' else None),
       IORegistryEntryGetPath =
         (\<lambda>e plane. if plane = kIODeviceTreePlane
                     then (if e = 3 then Some ''IODeviceTree:/'' else None)
                     else if e = 1 then Some ''IOService:/sata/disk/media''
                     else if e = 2 then Some ''IOService:/sata/disk''
                     else Some ''IOService:/''),
       IORegistryEntryCreateIterator =
         (\<lambda>e plane. if e = 1 then [2, 3] else if e = 2 then [3] else []),
       IORegistryEntryInPlane = (\<lambda>e plane. plane = kIOServicePlane \<or> e = 3),
       IORegistryEntryGetNameInPlane = (\<lambda>e plane. if e = 3 then Some ''/'' else None),
       IOServiceMatchPropertyTable =
         (\<lambda>media table.
            case table of
              Some (CFDictionary m) \<Rightarrow>
                media = Some 1 \<and>
                fmlookup m (CFSTR_lit ''Removable'') = properties (CFSTR_lit ''Removable'')
            | _ \<Rightarrow> False) \<rparr>"

definition demo_serialize :: "cfdictionary \<Rightarrow> cfvalue option" where
  "demo_serialize description =
     Some (CFDictionary (fmap_of_list
       (List.map_filter (\<lambda>key. map_option (Pair key) (description key))
          [da_key demo_header kDADiskIDKey,
           da_key demo_header kDADiskDescriptionVolumeNameKey,
           da_key demo_header kDADiskDescriptionVolumePathKey])))"

definition demo_cf :: corefoundation where
  "demo_cf =
     \<lparr> CFRuntimeCreateInstance = True,
       CFAllocatorAllocate = (\<lambda>n. True),
       CFStringGetCString =
         (\<lambda>object encoding. case object of CFString (CFSTR_lit s) \<Rightarrow> Some s | _ \<Rightarrow> None),
       CFStringCreateWithCString = (\<lambda>s encoding. Some (CFString (CFSTR_lit s))),
       CFURLCreateFromFileSystemRepresentation = (\<lambda>s. Some (CFURL s)),
       CFURLCopyFileSystemRepresentation =
         (\<lambda>object. case object of CFURL s \<Rightarrow> Some s | _ \<Rightarrow> None),
       CFNumberGetValue32 =
         (\<lambda>object. case object of CFNumber n \<Rightarrow> word_of_int n | _ \<Rightarrow> 0),
       CFNumberGetValue64 =
         (\<lambda>object. case object of CFNumber n \<Rightarrow> word_of_int n | _ \<Rightarrow> 0),
       CFNumberCreate_now = Some (CFOther 1),
       DASerializeDiskDescription = demo_serialize \<rparr>"

text \<open>User 501 of group 20 is known; \<open>/Volumes/Data\<close> is a local mount of that user, and
  nothing else is mounted.\<close>

definition demo_bsd :: bsd where
  "demo_bsd =
     \<lparr> getpwuid = (\<lambda>uid. if uid = 501 then Some \<lparr> pw_uid = 501, pw_gid = 20 \<rparr> else None),
       statfs_call =
         (\<lambda>path. if path = ''/Volumes/Data''
                  then Some \<lparr> f_mntonname = ''/Volumes/Data'', f_owner = 501,
                              f_flags = 0x00001000 \<rparr>
                  else None) \<rparr>"

definition no_hints :: "cfstring \<Rightarrow> cfvalue option" where
  "no_hints = Map.empty"

definition demo_owner_hint :: "cfstring \<Rightarrow> cfvalue option" where
  "demo_owner_hint = [CFSTR_lit ''owner-uid'' \<mapsto> CFNumber 501]"

definition demo_true_hints :: "cfstring \<Rightarrow> cfvalue option" where
  "demo_true_hints =
     [CFSTR_lit ''autodiskmount'' \<mapsto> kCFBooleanTrue,
      CFSTR_lit ''eject-upon-logout'' \<mapsto> kCFBooleanTrue]"

definition demo_number_hint :: "cfstring \<Rightarrow> cfvalue option" where
  "demo_number_hint = [CFSTR_lit ''autodiskmount'' \<mapsto> CFNumber 1]"

definition demo_GUID_hint :: "cfstring \<Rightarrow> cfvalue option" where
  "demo_GUID_hint = [CFSTR_lit ''GUID'' \<mapsto> CFNumber 0x0011223344556677]"

text \<open>A disk with nothing in it but an id.\<close>

definition demo_disk :: "string \<Rightarrow> DADisk" where
  "demo_disk ident =
     \<lparr> disk_bypath = None, disk_claim = None, disk_context = None,
       disk_contextRe = None, disk_description = Map.empty,
       disk_device = None, disk_deviceNode = 0, disk_devicePath0 = None,
       disk_devicePath1 = None, disk_deviceUnit = - 1,
       disk_filesystem = None, disk_id = ident, disk_media = None,
       disk_mode = 493, disk_options = 0, disk_serialization = None,
       disk_state = 0, disk_userEGID = 80, disk_userEUID = 0, disk_userRGID = 80,
       disk_userRUID = 0 \<rparr>"

text \<open>A hash of bytes, to have one.\<close>

definition demo_CFHashBytes :: "string \<Rightarrow> CFHashCode" where
  "demo_CFHashBytes bytes = foldl (\<lambda>acc c. acc * 31 + of_nat (of_char c)) 0 bytes"

text \<open>The fields that the description of a disk is built without touching.\<close>

definition kept :: "DADisk \<Rightarrow> DADisk \<Rightarrow> bool" where
  "kept d d' \<longleftrightarrow>
     disk_serialization d' = disk_serialization d \<and> disk_state d' = disk_state d \<and>
     disk_options d' = disk_options d \<and> disk_userEGID d' = disk_userEGID d \<and>
     disk_userEUID d' = disk_userEUID d \<and> disk_userRGID d' = disk_userRGID d \<and>
     disk_userRUID d' = disk_userRUID d"

text \<open>Keys of the description that the proofs follow through the construction: the
  entries of the device, which the media stages do not write, and the entries that the
  later stages do not write.\<close>

definition device_key :: "da_header \<Rightarrow> cfstring \<Rightarrow> bool" where
  "device_key h k \<longleftrightarrow>
     k = da_key h kDADiskDescriptionDeviceInternalKey \<or>
     k = da_key h kDADiskDescriptionDeviceGUIDKey"

definition tracked_key :: "da_header \<Rightarrow> cfstring \<Rightarrow> bool" where
  "tracked_key h k \<longleftrightarrow>
     k = da_key h kDADiskDescriptionMediaRemovableKey \<or>
     k = da_key h kDADiskDescriptionDeviceGUIDKey"

section \<open>The properties, in the words of the spec\<close>

text \<open>What one pair of a criteria bag asks of a disk, in the words of the spec: the
  special key is settled by the registry, any other key by the value the description holds
  under it.\<close>

definition criterion_holds :: "da_header \<Rightarrow> iokit \<Rightarrow> DADisk \<Rightarrow> cfstring \<Rightarrow> cfvalue \<Rightarrow> bool" where
  "criterion_holds h io disk key v =
     (if key = CFSTR h kIOPropertyMatchKey
      then IOServiceMatchPropertyTable io (disk_media disk)
             (DADiskGetDescription disk (CFSTR h kIOPropertyMatchKey))
      else DADiskGetDescription disk key = Some v)"

text \<open>The mount statistics of a path, in the words of the spec: the path is there, it
  has a file system representation, and \<open>statfs\<close> answers for it.\<close>

definition mount_statistics :: "corefoundation \<Rightarrow> bsd \<Rightarrow> cfvalue option \<Rightarrow> statfs option" where
  "mount_statistics cf os path =
     (case path of
        None \<Rightarrow> None
      | Some url \<Rightarrow>
          (case CFURLCopyFileSystemRepresentation cf url of
             None \<Rightarrow> None
           | Some fsrep \<Rightarrow> statfs_call os fsrep))"

text \<open>The six staging bits.\<close>

definition staged_bits :: "da_header \<Rightarrow> DADiskState list" where
  "staged_bits h =
     [kDADiskStateStagedProbe h, kDADiskStateStagedPeek h, kDADiskStateStagedRepair h,
      kDADiskStateStagedApprove h, kDADiskStateStagedAuthorize h, kDADiskStateStagedMount h]"

text \<open>The identity that the \<open>owner-uid\<close> hint resolves to: the hint is found from the
  device upwards and \<open>getpwuid\<close> knows the user.\<close>

definition resolved_owner :: "iokit \<Rightarrow> corefoundation \<Rightarrow> bsd \<Rightarrow> io_service_t \<Rightarrow> passwd option" where
  "resolved_owner io cf os device =
     (case IORegistryEntrySearchCFProperty io device kIOServicePlane (CFSTR_lit ''owner-uid'') of
        None \<Rightarrow> None
      | Some object \<Rightarrow> getpwuid os (CFNumberGetValue32 cf object))"

text \<open>The effective and the real (group, user) that a disk has.\<close>

definition disk_ownership :: "DADisk \<Rightarrow> (gid_t \<times> uid_t) \<times> (gid_t \<times> uid_t)" where
  "disk_ownership disk =
     ((disk_userEGID disk, disk_userEUID disk), (disk_userRGID disk, disk_userRUID disk))"

text \<open>The cascade of the spec (4.3, steps 1 to 4): the effective and the real
  (group, user) of a disk.\<close>

definition ownership_cascade ::
  "da_header \<Rightarrow> bool \<Rightarrow> cfvalue option \<Rightarrow> passwd option \<Rightarrow> (gid_t \<times> uid_t) \<times> (gid_t \<times> uid_t)" where
  "ownership_cascade h removable internal resolved =
     (let effective0 = (GID_ADMIN h, UID_ROOT h);
          real0 = (GID_ADMIN h, UID_ROOT h);
          real1 = (if removable then (GID_UNKNOWN h, UID_UNKNOWN h) else real0);
          real2 = (if internal = Some kCFBooleanFalse
                   then (GID_UNKNOWN h, UID_UNKNOWN h) else real1)
      in case resolved of
           None \<Rightarrow> (effective0, real2)
         | Some user \<Rightarrow> ((pw_gid user, pw_uid user), (pw_gid user, pw_uid user)))"

text \<open>The option bits that the \<open>autodiskmount\<close> hint and the \<open>eject-upon-logout\<close> hint
  stand for.\<close>

definition mount_automatic_bits :: "da_header \<Rightarrow> cfvalue option \<Rightarrow> DADiskOptions" where
  "mount_automatic_bits h hint =
     (case hint of
        None \<Rightarrow> kDADiskOptionMountAutomatic h
      | Some object \<Rightarrow>
          if object = kCFBooleanTrue
          then kDADiskOptionMountAutomatic h OR kDADiskOptionMountAutomaticNoDefer h
          else 0)"

definition eject_upon_logout_bits :: "da_header \<Rightarrow> cfvalue option \<Rightarrow> DADiskOptions" where
  "eject_upon_logout_bits h hint =
     (if hint = Some kCFBooleanTrue then kDADiskOptionEjectUponLogout h else 0)"

text \<open>The three option bits are bits: none is 0 and no two overlap.\<close>

definition option_bits_apart :: "da_header \<Rightarrow> bool" where
  "option_bits_apart h \<longleftrightarrow>
     kDADiskOptionMountAutomatic h \<noteq> 0 \<and> kDADiskOptionMountAutomaticNoDefer h \<noteq> 0 \<and>
     kDADiskOptionEjectUponLogout h \<noteq> 0 \<and>
     kDADiskOptionMountAutomatic h AND kDADiskOptionMountAutomaticNoDefer h = 0 \<and>
     kDADiskOptionMountAutomatic h AND kDADiskOptionEjectUponLogout h = 0 \<and>
     kDADiskOptionMountAutomaticNoDefer h AND kDADiskOptionEjectUponLogout h = 0"

text \<open>A required fact of the media is missing: the BSD name (or the C string of it, which
  names the device node), block size, major, minor, unit, content, ejectable, icon, the
  type of a DVD or CD, leaf, name, registry path, removable, size, whole, writable. The
  path is missing when neither the device tree plane nor the service plane gives one.\<close>

definition IOMedia_media_fact_missing ::
  "da_header \<Rightarrow> iokit \<Rightarrow> corefoundation \<Rightarrow> io_service_t \<Rightarrow> cfdictionary \<Rightarrow> bool" where
  "IOMedia_media_fact_missing h io cf media properties \<longleftrightarrow>
     (case properties (CFSTR h kIOBSDNameKey) of
        None \<Rightarrow> True
      | Some object \<Rightarrow> CFStringGetCString cf object kCFStringEncodingUTF8 = None) \<or>
     properties (CFSTR h kIOMediaPreferredBlockSizeKey) = None \<or>
     properties (CFSTR h kIOBSDMajorKey) = None \<or>
     properties (CFSTR h kIOBSDMinorKey) = None \<or>
     properties (CFSTR h kIOBSDUnitKey) = None \<or>
     properties (CFSTR h kIOMediaContentKey) = None \<or>
     properties (CFSTR h kIOMediaEjectableKey) = None \<or>
     IORegistryEntrySearchCFProperty io media kIOServicePlane (CFSTR h kIOMediaIconKey) = None \<or>
     (IOObjectConformsTo io media kIODVDMediaClass \<and>
        properties (CFSTR h kIODVDMediaTypeKey) = None) \<or>
     (\<not> IOObjectConformsTo io media kIODVDMediaClass \<and>
        IOObjectConformsTo io media kIOCDMediaClass \<and>
        properties (CFSTR h kIOCDMediaTypeKey) = None) \<or>
     properties (CFSTR h kIOMediaLeafKey) = None \<or>
     IORegistryEntryGetName io media = None \<or>
     (IORegistryEntryGetPath io media kIODeviceTreePlane = None \<and>
        IORegistryEntryGetPath io media kIOServicePlane = None) \<or>
     properties (CFSTR h kIOMediaRemovableKey) = None \<or>
     properties (CFSTR h kIOMediaSizeKey) = None \<or>
     properties (CFSTR h kIOMediaWholeKey) = None \<or>
     properties (CFSTR h kIOMediaWritableKey) = None"

text \<open>A required fact of the device is missing: its properties, its path, or the name or
  the path of the bus when there is a bus.\<close>

definition IOMedia_device_fact_missing :: "iokit \<Rightarrow> io_service_t \<Rightarrow> bool" where
  "IOMedia_device_fact_missing io device \<longleftrightarrow>
     IORegistryEntryCreateCFProperties io device = None \<or>
     IORegistryEntryGetPath io device kIOServicePlane = None \<or>
     (case IOIteratorNext_until (\<lambda>bus. IORegistryEntryInPlane io bus kIODeviceTreePlane)
             (IORegistryEntryCreateIterator io device kIOServicePlane) of
        None \<Rightarrow> False
      | Some bus \<Rightarrow>
          IORegistryEntryGetNameInPlane io bus kIODeviceTreePlane = None \<or>
          IORegistryEntryGetPath io bus kIODeviceTreePlane = None)"

text \<open>A required fact is missing or a registry query that has no fallback fails.\<close>

definition IOMedia_fact_missing :: "da_header \<Rightarrow> iokit \<Rightarrow> corefoundation \<Rightarrow> io_service_t \<Rightarrow> bool" where
  "IOMedia_fact_missing h io cf media \<longleftrightarrow>
     (case IORegistryEntryCreateCFProperties io media of
        None \<Rightarrow> True
      | Some properties \<Rightarrow>
          IOMedia_media_fact_missing h io cf media properties \<or>
          (case IOMedia_device_object io media of
             None \<Rightarrow> True
           | Some device \<Rightarrow> IOMedia_device_fact_missing io device))"

text \<open>\<open>__DADiskEqual\<close> (DADisk.c:171).\<close>

definition DADiskEqual :: "DADisk \<Rightarrow> DADisk \<Rightarrow> bool" where
  "DADiskEqual disk1 disk2 = (strcmp (disk_id disk1) (disk_id disk2) = 0)"

text \<open>\<open>CFHashBytes( bytes, length )\<close> is declared \<open>extern\<close> (DADisk.c:89) and lives in
  CoreFoundation: it is a parameter, and it is handed the \<open>length\<close> bytes it may read.
  \<open>__DADiskHash\<close> (DADisk.c:179).\<close>

definition DADiskHash :: "(string \<Rightarrow> CFHashCode) \<Rightarrow> DADisk \<Rightarrow> CFHashCode" where
  "DADiskHash CFHashBytes disk =
     CFHashBytes (take (min (strlen (disk_id disk)) 16) (disk_id disk))"

section \<open>Equality and hashing\<close>

lemma of_char_zero_iff: "(of_char y :: nat) = 0 \<longleftrightarrow> y = NUL"
proof -
  have "(of_char NUL :: nat) = 0"
    by (simp add: NUL_def)
  then show ?thesis
    using of_char_eq_iff [of y NUL, where ?'a = nat] by simp
qed

lemma c_str_Cons: "c_str (x # xs) = (if x = NUL then [] else x # c_str xs)"
  by (simp add: c_str_def)

lemma strcmp_zero_iff: "strcmp a b = 0 \<longleftrightarrow> c_str a = c_str b"
proof (induction a b rule: strcmp.induct)
  case 1
  show ?case by simp
next
  case (2 y ys)
  show ?case by (simp add: c_str_Cons of_char_zero_iff) (simp add: c_str_def)
next
  case (3 x xs)
  show ?case by (simp add: c_str_Cons of_char_zero_iff) (simp add: c_str_def)
next
  case (4 x xs y ys)
  then show ?case by (auto simp: c_str_Cons of_char_zero_iff)
qed

text \<open>
  C1. Two disks are equal exactly when their ids are the same C string, and the hash of a
  disk is a function of the first \<open>min (16, length)\<close> bytes of its id alone: disks that
  agree on those bytes have the same hash, whatever \<open>CFHashBytes\<close> computes.
\<close>

theorem C1_equal_and_hash:
  "(DADiskEqual a b \<longleftrightarrow> c_str (disk_id a) = c_str (disk_id b)) \<and>
   (take (min 16 (strlen (disk_id a))) (disk_id a) =
      take (min 16 (strlen (disk_id b))) (disk_id b)
    \<longrightarrow> DADiskHash h a = DADiskHash h b)"
  by (simp add: DADiskEqual_def DADiskHash_def strcmp_zero_iff min.commute)

theorem C1_equal_and_hash_witness:
  "take (min 16 (strlen ''/dev/disk2s1abcdefgh_A'')) ''/dev/disk2s1abcdefgh_A'' =
     take (min 16 (strlen ''/dev/disk2s1abcdefgh_B'')) ''/dev/disk2s1abcdefgh_B'' \<and>
   DADiskHash demo_CFHashBytes (demo_disk ''/dev/disk2s1abcdefgh_A'') =
     DADiskHash demo_CFHashBytes (demo_disk ''/dev/disk2s1abcdefgh_B'') \<and>
   \<not> DADiskEqual (demo_disk ''/dev/disk2s1abcdefgh_A'') (demo_disk ''/dev/disk2s1abcdefgh_B'') \<and>
   DADiskEqual (demo_disk ''/dev/disk2'') (demo_disk ''/dev/disk2'')"
  using C1_equal_and_hash
          [of "demo_disk ''/dev/disk2s1abcdefgh_A''" "demo_disk ''/dev/disk2s1abcdefgh_B''"
              demo_CFHashBytes]
        C1_equal_and_hash [of "demo_disk ''/dev/disk2''" "demo_disk ''/dev/disk2''" demo_CFHashBytes]
  by (simp add: demo_disk_def strlen_def c_str_def NUL_def)

section \<open>The bytes of a swapped value\<close>

lemma upt8: "[0 ..< 8] = [0, 1, 2, 3, 4, 5, 6, 7 :: nat]"
  by (simp add: upt_rec)

lemma bit_byte_high: "8 \<le> m \<Longrightarrow> bit (b :: 8 word) m = False"
  using bit_imp_le_length [of b m] by auto

lemma bytes_le_word_of_bytes_le:
  "bytes_le (word_of_bytes_le [b0, b1, b2, b3, b4, b5, b6, b7]) = [b0, b1, b2, b3, b4, b5, b6, b7]"
proof -
  let ?w = "word_of_bytes_le [b0, b1, b2, b3, b4, b5, b6, b7]"
  have "byte_of ?w 0 = b0"
    unfolding byte_of_def word_of_bytes_le_def
    by (rule bit_word_eqI) (simp add: bit_simps bit_byte_high)
  moreover have "byte_of ?w 1 = b1"
    unfolding byte_of_def word_of_bytes_le_def
    by (rule bit_word_eqI) (simp add: bit_simps bit_byte_high)
  moreover have "byte_of ?w 2 = b2"
    unfolding byte_of_def word_of_bytes_le_def
    by (rule bit_word_eqI) (simp add: bit_simps bit_byte_high)
  moreover have "byte_of ?w 3 = b3"
    unfolding byte_of_def word_of_bytes_le_def
    by (rule bit_word_eqI) (simp add: bit_simps bit_byte_high)
  moreover have "byte_of ?w 4 = b4"
    unfolding byte_of_def word_of_bytes_le_def
    by (rule bit_word_eqI) (simp add: bit_simps bit_byte_high)
  moreover have "byte_of ?w 5 = b5"
    unfolding byte_of_def word_of_bytes_le_def
    by (rule bit_word_eqI) (simp add: bit_simps bit_byte_high)
  moreover have "byte_of ?w 6 = b6"
    unfolding byte_of_def word_of_bytes_le_def
    by (rule bit_word_eqI) (simp add: bit_simps bit_byte_high)
  moreover have "byte_of ?w 7 = b7"
    unfolding byte_of_def word_of_bytes_le_def
    by (rule bit_word_eqI) (simp add: bit_simps bit_byte_high)
  ultimately show ?thesis
    by (simp add: bytes_le_def upt8)
qed

lemma memory_image_swap: "memory_image h (OSSwapHostToBigInt64 h v) = bytes_be v"
proof (cases "host_little_endian h")
  case True
  have "bytes_le (word_of_bytes_le (bytes_be v)) = bytes_be v"
    unfolding bytes_be_def bytes_le_def [of v] upt8
    by (simp add: bytes_le_word_of_bytes_le)
  with True show ?thesis
    by (simp add: memory_image_def OSSwapHostToBigInt64_def OSSwapInt64_def)
next
  case False
  then show ?thesis
    by (simp add: memory_image_def OSSwapHostToBigInt64_def)
qed

lemma length_bytes_be: "length (bytes_be v) = 8"
  by (simp add: bytes_be_def bytes_le_def)

section \<open>What the stages of the construction leave alone\<close>

lemma da_key_eq [simp]: "(da_key h a = da_key h b) = (a = b)"
  using Rep_da_names [of "da_string h"] by (simp add: da_key_def inj_eq)

lemma kept_refl: "kept d d" by (simp add: kept_def)
lemma kept_trans: "kept a b \<Longrightarrow> kept b c \<Longrightarrow> kept a c" by (simp add: kept_def)

lemma kept_set_description: "kept d (set_description d k v)"
  by (simp add: kept_def set_description_def)

lemma kept_copy_property: "copy_property h p k dk d = Some d' \<Longrightarrow> kept d d'"
  by (auto simp: copy_property_def kept_set_description split: option.splits)

lemma kept_media_bsd: "IOMedia_media_bsd h cf p d = Some d' \<Longrightarrow> kept d d'"
  unfolding IOMedia_media_bsd_def Let_def
  by (auto simp: kept_def set_description_def copy_property_def
           split: bind_splits option.splits)

lemma kept_media_kind: "IOMedia_media_kind h io m p d = Some d' \<Longrightarrow> kept d d'"
  by (auto simp: IOMedia_media_kind_def kept_def set_description_def copy_property_def split: if_splits option.splits)

lemma kept_media_content: "IOMedia_media_content h io m p d = Some d' \<Longrightarrow> kept d d'"
  unfolding IOMedia_media_content_def
  by (auto split: bind_splits dest!: kept_copy_property kept_media_kind simp: kept_def set_description_def)

lemma kept_media_name: "IOMedia_media_name h io cf m d = Some d' \<Longrightarrow> kept d d'"
  by (auto simp: IOMedia_media_name_def kept_def set_description_def split: bind_splits)

lemma kept_media_flags: "IOMedia_media_flags h p d = Some d' \<Longrightarrow> kept d d'"
  unfolding IOMedia_media_flags_def
  by (auto split: bind_splits dest!: kept_copy_property simp: kept_def)

lemma kept_media: "IOMedia_media h io cf m p d = Some d' \<Longrightarrow> kept d d'"
  unfolding IOMedia_media_def
  by (auto split: bind_splits dest!: kept_media_bsd kept_media_content kept_media_name kept_media_flags simp: kept_def)

lemma kept_device_protocol: "kept d (IOMedia_device_protocol h p d)"
  by (auto simp: IOMedia_device_protocol_def kept_def set_description_def Let_def split: option.splits)

lemma kept_copy_optional: "kept d (copy_optional h sub k dk d)"
  by (auto simp: copy_optional_def kept_def set_description_def split: option.splits)

lemma kept_device_model: "kept d (IOMedia_device_model h p d)"
  by (auto simp: IOMedia_device_model_def copy_optional_def kept_def set_description_def
           split: option.splits)

lemma kept_device_path: "IOMedia_device_path h io cf dev d = Some d' \<Longrightarrow> kept d d'"
  by (auto simp: IOMedia_device_path_def kept_def set_description_def split: bind_splits)

lemma kept_device_unit: "kept d (IOMedia_device_unit h io dev d)"
  by (auto simp: IOMedia_device_unit_def kept_def set_description_def split: option.splits)

lemma kept_device_GUID: "IOMedia_device_GUID h io cf dev d = Some d' \<Longrightarrow> kept d d'"
  by (auto simp: IOMedia_device_GUID_def kept_def set_description_def Let_def split: option.splits)

lemma kept_device:
  assumes "IOMedia_device h io cf dev d = Some d'"
  shows "kept d d'"
proof -
  from assms obtain p d1 where
    p: "IORegistryEntryCreateCFProperties io dev = Some p" and
    d1: "IOMedia_device_path h io cf dev
           (IOMedia_device_model h p (IOMedia_device_protocol h p d)) = Some d1" and
    d': "IOMedia_device_GUID h io cf dev (IOMedia_device_unit h io dev d1) = Some d'"
    by (auto simp: IOMedia_device_def split: bind_splits)
  have "kept d (IOMedia_device_protocol h p d)"
    by (rule kept_device_protocol)
  moreover have "kept (IOMedia_device_protocol h p d)
                   (IOMedia_device_model h p (IOMedia_device_protocol h p d))"
    by (rule kept_device_model)
  moreover have "kept (IOMedia_device_model h p (IOMedia_device_protocol h p d)) d1"
    using d1 by (rule kept_device_path)
  moreover have "kept d1 (IOMedia_device_unit h io dev d1)"
    by (rule kept_device_unit)
  moreover have "kept (IOMedia_device_unit h io dev d1) d'"
    using d' by (rule kept_device_GUID)
  ultimately show ?thesis
    by (blast intro: kept_trans)
qed

lemma kept_bus: "IOMedia_bus h io cf dev d = Some d' \<Longrightarrow> kept d d'"
  by (auto simp: IOMedia_bus_def kept_def set_description_def split: bind_splits option.splits)

lemma kept_appearance_time: "IOMedia_appearance_time h cf d = Some d' \<Longrightarrow> kept d d'"
  by (auto simp: IOMedia_appearance_time_def kept_def set_description_def split: option.splits)

lemma DADiskCreate_cases:
  "DADiskCreate h cf ident = Some d \<Longrightarrow>
     d = DADiskCreate_fields h ident \<or>
     (\<exists>data. d = set_description (DADiskCreate_fields h ident) (da_key h kDADiskIDKey) data)"
  by (auto simp: DADiskCreate_def split: if_splits option.splits)

lemma DADiskCreate_Some:
  "DADiskCreate h cf ident = Some d \<Longrightarrow>
     disk_serialization d = None \<and> disk_state d = 0 \<and> disk_options d = 0 \<and>
     disk_userEGID d = GID_ADMIN h \<and> disk_userEUID d = UID_ROOT h \<and>
     disk_userRGID d = GID_ADMIN h \<and> disk_userRUID d = UID_ROOT h \<and>
     disk_id d = c_str ident \<and>
     (\<forall>k. k \<noteq> (da_key h kDADiskIDKey) \<longrightarrow> disk_description d k = None)"
  by (drule DADiskCreate_cases)
     (auto simp: DADiskCreate_fields_def set_description_def strdup_def CFDictionarySetValue_def)

lemma disk_object_cases:
  "IOMedia_disk_object h cf media p = Some d \<Longrightarrow>
     \<exists>d0 ident a b c e. DADiskCreate h cf ident = Some d0 \<and>
       d = set_description (d0\<lparr>disk_device := a, disk_devicePath0 := b,
                    disk_devicePath1 := c, disk_media := e\<rparr>)
             (da_key h kDADiskDescriptionVolumeNetworkKey) kCFBooleanFalse"
  unfolding IOMedia_disk_object_def Let_def
  by (simp split: bind_splits) blast

lemma disk_object_fields:
  assumes "IOMedia_disk_object h cf media p = Some d"
  shows "disk_serialization d = None \<and> disk_state d = 0 \<and> disk_options d = 0 \<and>
     disk_userEGID d = GID_ADMIN h \<and> disk_userEUID d = UID_ROOT h \<and>
     disk_userRGID d = GID_ADMIN h \<and> disk_userRUID d = UID_ROOT h \<and>
     disk_description d (da_key h kDADiskDescriptionDeviceInternalKey) = None \<and>
     disk_description d (da_key h kDADiskDescriptionDeviceGUIDKey) = None"
proof -
  from disk_object_cases [OF assms] obtain d0 ident a b c e where
    d0: "DADiskCreate h cf ident = Some d0" and
    d: "d = set_description (d0\<lparr>disk_device := a, disk_devicePath0 := b,
                    disk_devicePath1 := c, disk_media := e\<rparr>)
             (da_key h kDADiskDescriptionVolumeNetworkKey) kCFBooleanFalse"
    by blast
  from DADiskCreate_Some [OF d0] show ?thesis
    by (simp add: d set_description_def CFDictionarySetValue_def)
qed

section \<open>What the stages of the construction write\<close>

lemma description_set_description:
  "disk_description (set_description d k v) k' = (if k' = k then Some v else disk_description d k')"
  by (simp add: set_description_def CFDictionarySetValue_def)

lemma copy_property_description:
  "copy_property h p key dk d = Some d' \<Longrightarrow>
     disk_description d' k = (if k = dk then p (CFSTR h key) else disk_description d k)"
  by (auto simp: copy_property_def description_set_description CFDictionaryGetValue_def
           split: option.splits)

lemma media_bsd_description:
  "IOMedia_media_bsd h cf p d = Some d' \<Longrightarrow> device_key h k \<Longrightarrow>
     disk_description d' k = disk_description d k"
  unfolding IOMedia_media_bsd_def device_key_def Let_def
  by (auto split: bind_splits simp: description_set_description copy_property_description)

lemma media_kind_description:
  "IOMedia_media_kind h io m p d = Some d' \<Longrightarrow> device_key h k \<Longrightarrow>
     disk_description d' k = disk_description d k"
  unfolding IOMedia_media_kind_def device_key_def
  by (auto split: if_splits simp: description_set_description copy_property_description)

lemma media_content_description:
  "IOMedia_media_content h io m p d = Some d' \<Longrightarrow> device_key h k \<Longrightarrow>
     disk_description d' k = disk_description d k"
  unfolding IOMedia_media_content_def
  by (auto split: bind_splits
           simp: description_set_description copy_property_description media_kind_description device_key_def)

lemma media_name_description:
  "IOMedia_media_name h io cf m d = Some d' \<Longrightarrow> device_key h k \<Longrightarrow>
     disk_description d' k = disk_description d k"
  unfolding IOMedia_media_name_def device_key_def
  by (auto split: bind_splits simp: description_set_description)

lemma media_flags_description:
  "IOMedia_media_flags h p d = Some d' \<Longrightarrow>
     disk_description d' (da_key h kDADiskDescriptionMediaRemovableKey) = p (CFSTR h kIOMediaRemovableKey) \<and>
     (device_key h k \<longrightarrow> disk_description d' k = disk_description d k)"
  unfolding IOMedia_media_flags_def device_key_def
  by (auto split: bind_splits simp: copy_property_description)

lemma media_description:
  assumes "IOMedia_media h io cf m p d = Some d'"
  shows "disk_description d' (da_key h kDADiskDescriptionMediaRemovableKey) = p (CFSTR h kIOMediaRemovableKey) \<and>
         disk_description d' (da_key h kDADiskDescriptionDeviceGUIDKey) =
           disk_description d (da_key h kDADiskDescriptionDeviceGUIDKey)"
proof -
  from assms obtain d1 d2 d3 where
    1: "IOMedia_media_bsd h cf p d = Some d1" and
    2: "IOMedia_media_content h io m p d1 = Some d2" and
    3: "IOMedia_media_name h io cf m d2 = Some d3" and
    4: "IOMedia_media_flags h p d3 = Some d'"
    by (auto simp: IOMedia_media_def split: bind_splits)
  have k: "device_key h (da_key h kDADiskDescriptionDeviceGUIDKey)"
    by (simp add: device_key_def)
  from media_flags_description [OF 4, of "da_key h kDADiskDescriptionDeviceGUIDKey"]
       media_name_description [OF 3 k] media_content_description [OF 2 k]
       media_bsd_description [OF 1 k] k
  show ?thesis by simp
qed

lemma device_protocol_description:
  "tracked_key h k \<Longrightarrow> disk_description (IOMedia_device_protocol h p d) k = disk_description d k"
  by (auto simp: IOMedia_device_protocol_def tracked_key_def Let_def description_set_description
           split: option.splits)

lemma device_model_description:
  "tracked_key h k \<Longrightarrow> disk_description (IOMedia_device_model h p d) k = disk_description d k"
  by (auto simp: IOMedia_device_model_def copy_optional_def tracked_key_def
                 description_set_description
           split: option.splits)

lemma device_path_description:
  "IOMedia_device_path h io cf dev d = Some d' \<Longrightarrow> tracked_key h k \<Longrightarrow>
     disk_description d' k = disk_description d k"
  unfolding IOMedia_device_path_def tracked_key_def
  by (auto split: bind_splits simp: description_set_description)

lemma device_unit_description:
  "tracked_key h k \<Longrightarrow> disk_description (IOMedia_device_unit h io dev d) k = disk_description d k"
  by (auto simp: IOMedia_device_unit_def tracked_key_def description_set_description
           split: option.splits)

lemma device_GUID_description:
  "IOMedia_device_GUID h io cf dev d = Some d' \<Longrightarrow>
     disk_description d' (da_key h kDADiskDescriptionMediaRemovableKey) =
       disk_description d (da_key h kDADiskDescriptionMediaRemovableKey) \<and>
     disk_description d' (da_key h kDADiskDescriptionDeviceGUIDKey) =
       (case IORegistryEntrySearchCFProperty io dev kIOServicePlane (CFSTR_lit ''GUID'') of
          None \<Rightarrow> disk_description d (da_key h kDADiskDescriptionDeviceGUIDKey)
        | Some object \<Rightarrow> Some (CFData (bytes_be (CFNumberGetValue64 cf object))))"
  by (auto simp: IOMedia_device_GUID_def Let_def CFDataCreate_def memory_image_swap
                 description_set_description
           split: option.splits if_splits)

lemma bus_description:
  "IOMedia_bus h io cf dev d = Some d' \<Longrightarrow> tracked_key h k \<Longrightarrow>
     disk_description d' k = disk_description d k"
  unfolding IOMedia_bus_def tracked_key_def
  by (auto split: bind_splits option.splits simp: description_set_description)

lemma appearance_time_description:
  "IOMedia_appearance_time h cf d = Some d' \<Longrightarrow> tracked_key h k \<Longrightarrow>
     disk_description d' k = disk_description d k"
  unfolding IOMedia_appearance_time_def tracked_key_def
  by (auto split: option.splits simp: description_set_description)

lemma device_description:
  assumes "IOMedia_device h io cf dev d = Some d'"
  shows "disk_description d' (da_key h kDADiskDescriptionMediaRemovableKey) =
           disk_description d (da_key h kDADiskDescriptionMediaRemovableKey) \<and>
         disk_description d' (da_key h kDADiskDescriptionDeviceGUIDKey) =
           (case IORegistryEntrySearchCFProperty io dev kIOServicePlane (CFSTR_lit ''GUID'') of
              None \<Rightarrow> disk_description d (da_key h kDADiskDescriptionDeviceGUIDKey)
            | Some object \<Rightarrow> Some (CFData (bytes_be (CFNumberGetValue64 cf object))))"
proof -
  from assms obtain p d1 where
    d1: "IOMedia_device_path h io cf dev
           (IOMedia_device_model h p (IOMedia_device_protocol h p d)) = Some d1" and
    d': "IOMedia_device_GUID h io cf dev (IOMedia_device_unit h io dev d1) = Some d'"
    by (auto simp: IOMedia_device_def split: bind_splits)
  have t: "tracked_key h (da_key h kDADiskDescriptionMediaRemovableKey)"
          "tracked_key h (da_key h kDADiskDescriptionDeviceGUIDKey)"
    by (simp_all add: tracked_key_def)
  have "disk_description (IOMedia_device_unit h io dev d1) k = disk_description d k"
    if "tracked_key h k" for k
    using that device_path_description [OF d1 that]
    by (simp add: device_unit_description device_model_description device_protocol_description)
  from this [OF t(1)] this [OF t(2)] device_GUID_description [OF d'] show ?thesis
    by (simp split: option.splits)
qed


lemma state_description:
  "disk_description (IOMedia_state h io cf os media dev d) = disk_description d"
  by (simp add: IOMedia_state_def IOMedia_owner_mode_def IOMedia_owner_def
                IOMedia_eject_upon_logout_def IOMedia_mount_automatic_def Let_def
           split: option.splits)

lemma IOMedia_cases:
  assumes "DADiskCreateFromIOMedia h io cf os media = Some disk"
  shows "\<exists>p dev d4.
           IORegistryEntryCreateCFProperties io media = Some p \<and>
           IOMedia_device_object io media = Some dev \<and>
           disk = IOMedia_state h io cf os media dev d4 \<and>
           disk_serialization d4 = None \<and> disk_state d4 = 0 \<and> disk_options d4 = 0 \<and>
           disk_userEGID d4 = GID_ADMIN h \<and> disk_userEUID d4 = UID_ROOT h \<and>
           disk_userRGID d4 = GID_ADMIN h \<and> disk_userRUID d4 = UID_ROOT h \<and>
           disk_description d4 (da_key h kDADiskDescriptionMediaRemovableKey) =
             p (CFSTR h kIOMediaRemovableKey) \<and>
           disk_description d4 (da_key h kDADiskDescriptionDeviceGUIDKey) =
             (case IORegistryEntrySearchCFProperty io dev kIOServicePlane (CFSTR_lit ''GUID'') of
                None \<Rightarrow> None
              | Some object \<Rightarrow> Some (CFData (bytes_be (CFNumberGetValue64 cf object))))"
proof -
  from assms obtain p d0 d1 dev d2 d3 d4 where
    p: "IORegistryEntryCreateCFProperties io media = Some p" and
    d0: "IOMedia_disk_object h cf media p = Some d0" and
    d1: "IOMedia_media h io cf media p d0 = Some d1" and
    dev: "IOMedia_device_object io media = Some dev" and
    d2: "IOMedia_device h io cf dev d1 = Some d2" and
    d3: "IOMedia_bus h io cf dev d2 = Some d3" and
    d4: "IOMedia_appearance_time h cf d3 = Some d4" and
    disk: "disk = IOMedia_state h io cf os media dev d4"
    by (auto simp: DADiskCreateFromIOMedia_def split: bind_splits)
  have "kept d0 d4"
    using kept_media [OF d1] kept_device [OF d2] kept_bus [OF d3] kept_appearance_time [OF d4]
    by (blast intro: kept_trans)
  with disk_object_fields [OF d0] have fields:
    "disk_serialization d4 = None \<and> disk_state d4 = 0 \<and> disk_options d4 = 0 \<and>
     disk_userEGID d4 = GID_ADMIN h \<and> disk_userEUID d4 = UID_ROOT h \<and>
     disk_userRGID d4 = GID_ADMIN h \<and> disk_userRUID d4 = UID_ROOT h"
    by (simp add: kept_def)
  have t: "tracked_key h (da_key h kDADiskDescriptionMediaRemovableKey)"
          "tracked_key h (da_key h kDADiskDescriptionDeviceGUIDKey)"
    by (simp_all add: tracked_key_def)
  have later: "disk_description d4 k = disk_description d2 k" if "tracked_key h k" for k
    using appearance_time_description [OF d4 that] bus_description [OF d3 that] by simp
  from later [OF t(1)] later [OF t(2)] device_description [OF d2] media_description [OF d1]
       disk_object_fields [OF d0]
  have "disk_description d4 (da_key h kDADiskDescriptionMediaRemovableKey) =
             p (CFSTR h kIOMediaRemovableKey) \<and>
        disk_description d4 (da_key h kDADiskDescriptionDeviceGUIDKey) =
             (case IORegistryEntrySearchCFProperty io dev kIOServicePlane (CFSTR_lit ''GUID'') of
                None \<Rightarrow> None
              | Some object \<Rightarrow> Some (CFData (bytes_be (CFNumberGetValue64 cf object))))"
    by (simp split: option.splits)
  with p dev disk fields show ?thesis
    by blast
qed

section \<open>Volume paths, matching, options and owner\<close>

lemma VolumePath_cases:
  assumes "DADiskCreateFromVolumePath h cf os path = Some disk"
  shows "\<exists>url fsrep fs d0.
           path = Some url \<and> CFURLCopyFileSystemRepresentation cf url = Some fsrep \<and>
           statfs_call os fsrep = Some fs \<and> DADiskCreate h cf (f_mntonname fs) = Some d0 \<and>
           disk_serialization disk = disk_serialization d0 \<and>
           disk_id disk = disk_id d0 \<and>
           disk_state disk =
             disk_state d0 OR kDADiskStateStagedProbe h OR kDADiskStateStagedPeek h OR
             kDADiskStateStagedRepair h OR kDADiskStateStagedApprove h OR
             kDADiskStateStagedAuthorize h OR kDADiskStateStagedMount h"
proof -
  from assms obtain url where url: "path = Some url"
    by (cases path) (simp_all add: DADiskCreateFromVolumePath_def)
  from assms url obtain fsrep where fsrep: "CFURLCopyFileSystemRepresentation cf url = Some fsrep"
    by (cases "CFURLCopyFileSystemRepresentation cf url")
       (simp_all add: DADiskCreateFromVolumePath_def)
  from assms url fsrep obtain fs where fs: "statfs_call os fsrep = Some fs"
    by (cases "statfs_call os fsrep") (simp_all add: DADiskCreateFromVolumePath_def)
  from assms url fsrep fs obtain d0 where d0: "DADiskCreate h cf (f_mntonname fs) = Some d0"
    by (cases "DADiskCreate h cf (f_mntonname fs)")
       (simp_all add: DADiskCreateFromVolumePath_def)
  from assms have
    "disk_serialization disk = disk_serialization d0 \<and>
     disk_id disk = disk_id d0 \<and>
     disk_state disk =
             disk_state d0 OR kDADiskStateStagedProbe h OR kDADiskStateStagedPeek h OR
             kDADiskStateStagedRepair h OR kDADiskStateStagedApprove h OR
             kDADiskStateStagedAuthorize h OR kDADiskStateStagedMount h"
    unfolding DADiskCreateFromVolumePath_def url
    by (cases "getpwuid os (f_owner fs)")
       (auto simp: fsrep fs d0 Let_def set_description_def ac_simps)
  with url fsrep fs d0 show ?thesis by blast
qed

lemma staged_absorb:
  fixes a b c d e f :: "32 word"
  shows "(a OR b OR c OR d OR e OR f) AND a = a"
    "(a OR b OR c OR d OR e OR f) AND b = b"
    "(a OR b OR c OR d OR e OR f) AND c = c"
    "(a OR b OR c OR d OR e OR f) AND d = d"
    "(a OR b OR c OR d OR e OR f) AND e = e"
    "(a OR b OR c OR d OR e OR f) AND f = f"
  by (simp_all add: bit_eq_iff bit_simps) blast+

lemma VolumePath_fields:
  assumes "DADiskCreateFromVolumePath h cf os path = Some disk"
  shows "disk_serialization disk = None \<and>
         disk_state disk =
           0 OR kDADiskStateStagedProbe h OR kDADiskStateStagedPeek h OR
           kDADiskStateStagedRepair h OR kDADiskStateStagedApprove h OR
           kDADiskStateStagedAuthorize h OR kDADiskStateStagedMount h"
proof -
  from VolumePath_cases [OF assms] obtain fs :: statfs and d0 where
    d0: "DADiskCreate h cf (f_mntonname fs) = Some d0" and
    s: "disk_serialization disk = disk_serialization d0" and
    st: "disk_state disk =
           disk_state d0 OR kDADiskStateStagedProbe h OR kDADiskStateStagedPeek h OR
           kDADiskStateStagedRepair h OR kDADiskStateStagedApprove h OR
           kDADiskStateStagedAuthorize h OR kDADiskStateStagedMount h"
    by blast
  from DADiskCreate_Some [OF d0] have "disk_serialization d0 = None" "disk_state d0 = 0"
    by simp_all
  with s st show ?thesis
    by simp
qed

lemma applier_None: "CFDictionaryApplyFunction match (DADiskMatch_applier h io) None = None"
  by (induction match) (auto simp: DADiskMatch_applier_def)

lemma applier_Some:
  "DADiskMatch_applier h io k v (Some disk) = (if criterion_holds h io disk k v then Some disk else None)"
  by (auto simp: DADiskMatch_applier_def criterion_holds_def DADiskGetDescription_def CFEqual_def
                 Let_def
           split: option.splits)

lemma apply_Some:
  "CFDictionaryApplyFunction match (DADiskMatch_applier h io) (Some disk) =
     (if \<forall>(k, v) \<in> set match. criterion_holds h io disk k v then Some disk else None)"
proof (induction match)
  case Nil
  show ?case by simp
next
  case (Cons kv match)
  obtain k v where kv: "kv = (k, v)" by (cases kv)
  show ?case
    by (simp add: kv applier_Some applier_None Cons.IH)
qed

lemma DADiskMatch_iff:
  "DADiskMatch h io disk match \<longleftrightarrow> (\<forall>(k, v) \<in> set match. criterion_holds h io disk k v)"
  by (simp add: DADiskMatch_def apply_Some)

text \<open>
  C4. \<open>DADiskMatch\<close> is true of the empty bag; a pair of an ordinary key, one whose
  characters are not those of \<open>kIOPropertyMatchKey\<close>, makes it false when the description
  has nothing under the key or something else than the value; and it is true only if
  every pair of the bag holds.
\<close>

theorem C4_match:
  "DADiskMatch h io disk [] \<and>
   ((k, v) \<in> set match \<and> k \<noteq> CFSTR h kIOPropertyMatchKey \<and>
      (DADiskGetDescription disk k = None \<or> DADiskGetDescription disk k \<noteq> Some v)
    \<longrightarrow> \<not> DADiskMatch h io disk match) \<and>
   (DADiskMatch h io disk match \<longrightarrow> (\<forall>(k', v') \<in> set match. criterion_holds h io disk k' v'))"
proof -
  have "\<not> DADiskMatch h io disk match"
    if kv: "(k, v) \<in> set match" and k: "k \<noteq> CFSTR h kIOPropertyMatchKey" and
       d: "DADiskGetDescription disk k \<noteq> Some v"
  proof
    assume "DADiskMatch h io disk match"
    with kv have "criterion_holds h io disk k v"
      by (auto simp: DADiskMatch_iff)
    with k d show False
      by (simp add: criterion_holds_def)
  qed
  then show ?thesis
    by (auto simp: DADiskMatch_iff)
qed

text \<open>
  C10. For the key \<open>kIOPropertyMatchKey\<close> the applier hands the registry the value that
  the description of the disk holds under that key, \<open>NULL\<close> included, and the value of
  the criteria bag has no part in the result: changing it changes nothing, and for a bag
  with that key \<open>DADiskMatch\<close> is true exactly when the registry accepts the value of the
  description and the pairs of the other keys are those of the description.
\<close>

theorem C10_special_key:
  "DADiskMatch_applier h io (CFSTR h kIOPropertyMatchKey) v (Some disk) =
     (if IOServiceMatchPropertyTable io (disk_media disk)
           (DADiskGetDescription disk (CFSTR h kIOPropertyMatchKey))
      then Some disk else None) \<and>
   DADiskMatch h io disk
     (map (\<lambda>(k, v). (k, if k = CFSTR h kIOPropertyMatchKey then f v else v)) match) =
   DADiskMatch h io disk match \<and>
   ((CFSTR h kIOPropertyMatchKey, v) \<in> set match \<longrightarrow>
      (DADiskMatch h io disk match \<longleftrightarrow>
         IOServiceMatchPropertyTable io (disk_media disk)
           (DADiskGetDescription disk (CFSTR h kIOPropertyMatchKey)) \<and>
         (\<forall>(k', v') \<in> set match.
            k' \<noteq> CFSTR h kIOPropertyMatchKey \<longrightarrow> DADiskGetDescription disk k' = Some v')))"
proof -
  let ?registry = "IOServiceMatchPropertyTable io (disk_media disk)
                     (DADiskGetDescription disk (CFSTR h kIOPropertyMatchKey))"
  have 1: "DADiskMatch_applier h io (CFSTR h kIOPropertyMatchKey) v (Some disk) =
             (if ?registry then Some disk else None)"
    by (simp add: applier_Some criterion_holds_def)
  have 2: "DADiskMatch h io disk
             (map (\<lambda>(k, v). (k, if k = CFSTR h kIOPropertyMatchKey then f v else v)) match) =
           DADiskMatch h io disk match"
    by (auto simp: DADiskMatch_iff criterion_holds_def)
  have 3: "DADiskMatch h io disk match \<longleftrightarrow>
             ?registry \<and>
             (\<forall>(k', v') \<in> set match.
                k' \<noteq> CFSTR h kIOPropertyMatchKey \<longrightarrow> DADiskGetDescription disk k' = Some v')"
    if "(CFSTR h kIOPropertyMatchKey, v) \<in> set match"
    using that by (auto simp: DADiskMatch_iff criterion_holds_def)
  from 1 2 3 show ?thesis
    by blast
qed

text \<open>
  C7. Without a path, without a file system representation of it, or without mount
  statistics for it, \<open>DADiskCreateFromVolumePath\<close> returns \<open>NULL\<close>, the one value it has
  for no disk; a disk is only returned when \<open>statfs\<close> has answered, and its id is the
  mount point.
\<close>

theorem C7_volume_path:
  "(mount_statistics cf os path = None \<longrightarrow> DADiskCreateFromVolumePath h cf os path = None) \<and>
   (DADiskCreateFromVolumePath h cf os path = Some disk \<longrightarrow>
      (\<exists>fs. mount_statistics cf os path = Some fs \<and> disk_id disk = c_str (f_mntonname fs)))"
proof -
  have "DADiskCreateFromVolumePath h cf os path = None" if "mount_statistics cf os path = None"
    using that
    by (auto simp: mount_statistics_def DADiskCreateFromVolumePath_def split: option.splits)
  moreover have
    "\<exists>fs. mount_statistics cf os path = Some fs \<and> disk_id disk = c_str (f_mntonname fs)"
    if "DADiskCreateFromVolumePath h cf os path = Some disk"
  proof -
    from VolumePath_cases [OF that] obtain url fsrep fs d0 where
      "path = Some url" "CFURLCopyFileSystemRepresentation cf url = Some fsrep"
      "statfs_call os fsrep = Some fs" and d0: "DADiskCreate h cf (f_mntonname fs) = Some d0"
      and "disk_id disk = disk_id d0"
      by blast
    with DADiskCreate_Some [OF d0] show ?thesis
      by (simp add: mount_statistics_def)
  qed
  ultimately show ?thesis
    by blast
qed

lemma state_stage_state:
  "disk_state (IOMedia_state h io cf os media dev d) = disk_state d"
proof -
  have 1: "disk_state (IOMedia_mount_automatic h io media x) = disk_state x" for x
    by (simp add: IOMedia_mount_automatic_def split: option.splits)
  have 2: "disk_state (IOMedia_eject_upon_logout h io dev x) = disk_state x" for x
    by (simp add: IOMedia_eject_upon_logout_def)
  have 3: "disk_state (IOMedia_owner h io cf os dev x) = disk_state x" for x
    by (simp add: IOMedia_owner_def Let_def split: option.splits)
  have 4: "disk_state (IOMedia_owner_mode io cf dev x) = disk_state x" for x
    by (simp add: IOMedia_owner_mode_def split: option.splits)
  show ?thesis
    by (simp add: IOMedia_state_def 1 2 3 4)
qed

lemma hardware_unstaged:
  assumes "DADiskCreateFromIOMedia h io cf os media = Some disk'"
  shows "\<not> DADiskGetState disk' staged"
proof -
  from IOMedia_cases [OF assms] obtain dev d4 where
    "disk' = IOMedia_state h io cf os media dev d4" and "disk_state d4 = 0"
    by blast
  then have "disk_state disk' = 0"
    by (simp add: state_stage_state)
  then show ?thesis
    by (simp add: DADiskGetState_def)
qed

text \<open>
  C8. A disk from a volume path has the six staging bits set, and a disk from a media
  object has them clear.
\<close>

theorem C8_staging:
  "(DADiskCreateFromVolumePath h cf os path = Some disk \<and> 0 \<notin> set (staged_bits h)
      \<longrightarrow> (\<forall>staged \<in> set (staged_bits h). DADiskGetState disk staged)) \<and>
   (DADiskCreateFromIOMedia h io cf os media = Some disk'
      \<longrightarrow> (\<forall>staged \<in> set (staged_bits h). \<not> DADiskGetState disk' staged))"
proof -
  have "\<forall>staged \<in> set (staged_bits h). DADiskGetState disk staged"
    if v: "DADiskCreateFromVolumePath h cf os path = Some disk" and
       nz: "0 \<notin> set (staged_bits h)"
  proof -
    from VolumePath_fields [OF v] have st:
      "disk_state disk =
           0 OR kDADiskStateStagedProbe h OR kDADiskStateStagedPeek h OR
           kDADiskStateStagedRepair h OR kDADiskStateStagedApprove h OR
           kDADiskStateStagedAuthorize h OR kDADiskStateStagedMount h"
      by simp
    then have "disk_state disk AND staged = staged" if "staged \<in> set (staged_bits h)"
      for staged
      using that by (auto simp: staged_bits_def staged_absorb)
    with nz show ?thesis
      by (auto simp: DADiskGetState_def)
  qed
  moreover have "\<not> DADiskGetState disk' staged"
    if "DADiskCreateFromIOMedia h io cf os media = Some disk'" for staged
    using that by (rule hardware_unstaged)
  ultimately show ?thesis
    by blast
qed

lemma mount_automatic_fields:
  "disk_options (IOMedia_mount_automatic h io media d) =
     disk_options d OR
     mount_automatic_bits h
       (IORegistryEntrySearchCFProperty io media kIOServicePlane (CFSTR_lit ''autodiskmount'')) \<and>
   disk_serialization (IOMedia_mount_automatic h io media d) = disk_serialization d \<and>
   disk_description (IOMedia_mount_automatic h io media d) = disk_description d \<and>
   disk_userEGID (IOMedia_mount_automatic h io media d) = disk_userEGID d \<and>
   disk_userEUID (IOMedia_mount_automatic h io media d) = disk_userEUID d \<and>
   disk_userRGID (IOMedia_mount_automatic h io media d) = disk_userRGID d \<and>
   disk_userRUID (IOMedia_mount_automatic h io media d) = disk_userRUID d"
  by (simp add: IOMedia_mount_automatic_def mount_automatic_bits_def split: option.splits)

lemma eject_upon_logout_fields:
  "disk_options (IOMedia_eject_upon_logout h io dev d) =
     disk_options d OR
     eject_upon_logout_bits h
       (IORegistryEntrySearchCFProperty io dev kIOServicePlane (CFSTR_lit ''eject-upon-logout'')) \<and>
   disk_serialization (IOMedia_eject_upon_logout h io dev d) = disk_serialization d \<and>
   disk_description (IOMedia_eject_upon_logout h io dev d) = disk_description d \<and>
   disk_userEGID (IOMedia_eject_upon_logout h io dev d) = disk_userEGID d \<and>
   disk_userEUID (IOMedia_eject_upon_logout h io dev d) = disk_userEUID d \<and>
   disk_userRGID (IOMedia_eject_upon_logout h io dev d) = disk_userRGID d \<and>
   disk_userRUID (IOMedia_eject_upon_logout h io dev d) = disk_userRUID d"
  by (simp add: IOMedia_eject_upon_logout_def eject_upon_logout_bits_def)

lemma owner_fields:
  "disk_options (IOMedia_owner h io cf os dev d) = disk_options d \<and>
   disk_serialization (IOMedia_owner h io cf os dev d) = disk_serialization d \<and>
   disk_description (IOMedia_owner h io cf os dev d) = disk_description d"
  by (simp add: IOMedia_owner_def Let_def split: option.splits)

lemma owner_ids:
  assumes "disk_userEGID d = GID_ADMIN h" "disk_userEUID d = UID_ROOT h"
    "disk_userRGID d = GID_ADMIN h" "disk_userRUID d = UID_ROOT h"
  shows "((disk_userEGID (IOMedia_owner h io cf os dev d),
           disk_userEUID (IOMedia_owner h io cf os dev d)),
          (disk_userRGID (IOMedia_owner h io cf os dev d),
           disk_userRUID (IOMedia_owner h io cf os dev d))) =
         ownership_cascade h
           (disk_description d (da_key h kDADiskDescriptionMediaRemovableKey) = Some kCFBooleanTrue)
           (disk_description d (da_key h kDADiskDescriptionDeviceInternalKey))
           (resolved_owner io cf os dev)"
  using assms
  by (simp add: IOMedia_owner_def ownership_cascade_def resolved_owner_def Let_def
                CFDictionaryGetValue_def
           split: option.splits)

lemma owner_mode_fields:
  "disk_options (IOMedia_owner_mode io cf dev d) = disk_options d \<and>
   disk_serialization (IOMedia_owner_mode io cf dev d) = disk_serialization d \<and>
   disk_description (IOMedia_owner_mode io cf dev d) = disk_description d \<and>
   disk_userEGID (IOMedia_owner_mode io cf dev d) = disk_userEGID d \<and>
   disk_userEUID (IOMedia_owner_mode io cf dev d) = disk_userEUID d \<and>
   disk_userRGID (IOMedia_owner_mode io cf dev d) = disk_userRGID d \<and>
   disk_userRUID (IOMedia_owner_mode io cf dev d) = disk_userRUID d"
  by (simp add: IOMedia_owner_mode_def split: option.splits)

lemma state_stage_options:
  "disk_options (IOMedia_state h io cf os media dev d) =
     disk_options d OR
     mount_automatic_bits h
       (IORegistryEntrySearchCFProperty io media kIOServicePlane (CFSTR_lit ''autodiskmount'')) OR
     eject_upon_logout_bits h
       (IORegistryEntrySearchCFProperty io dev kIOServicePlane (CFSTR_lit ''eject-upon-logout''))"
  by (simp add: IOMedia_state_def owner_mode_fields owner_fields eject_upon_logout_fields
                mount_automatic_fields or.assoc)

lemma state_stage_serialization:
  "disk_serialization (IOMedia_state h io cf os media dev d) = disk_serialization d"
  by (simp add: IOMedia_state_def owner_mode_fields owner_fields eject_upon_logout_fields
                mount_automatic_fields)

lemma state_stage_ids:
  assumes "disk_userEGID d = GID_ADMIN h" "disk_userEUID d = UID_ROOT h"
    "disk_userRGID d = GID_ADMIN h" "disk_userRUID d = UID_ROOT h"
  shows "((disk_userEGID (IOMedia_state h io cf os media dev d),
           disk_userEUID (IOMedia_state h io cf os media dev d)),
          (disk_userRGID (IOMedia_state h io cf os media dev d),
           disk_userRUID (IOMedia_state h io cf os media dev d))) =
         ownership_cascade h
           (disk_description d (da_key h kDADiskDescriptionMediaRemovableKey) = Some kCFBooleanTrue)
           (disk_description d (da_key h kDADiskDescriptionDeviceInternalKey))
           (resolved_owner io cf os dev)"
proof -
  let ?d = "IOMedia_eject_upon_logout h io dev (IOMedia_mount_automatic h io media d)"
  have "disk_userEGID ?d = GID_ADMIN h" "disk_userEUID ?d = UID_ROOT h"
    "disk_userRGID ?d = GID_ADMIN h" "disk_userRUID ?d = UID_ROOT h"
    using assms by (simp_all add: eject_upon_logout_fields mount_automatic_fields)
  from owner_ids [OF this, of io cf os dev] show ?thesis
    by (simp add: IOMedia_state_def owner_mode_fields eject_upon_logout_fields
                  mount_automatic_fields)
qed

text \<open>
  C3. A disk built from a media object has the ownership of the cascade: effective and
  real start as (admin, root); a removable media and, independently, a device whose
  internal entry is there and false make the real pair unknown and leave the effective
  pair alone; an \<open>owner-uid\<close> hint that \<open>getpwuid\<close> resolves overwrites all four. The
  removable entry of the description is the removable property of the media.
\<close>

theorem C3_ownership:
  assumes "DADiskCreateFromIOMedia h io cf os media = Some disk"
  shows "\<exists>properties device.
           IORegistryEntryCreateCFProperties io media = Some properties \<and>
           IOMedia_device_object io media = Some device \<and>
           DADiskGetDescription disk (da_key h kDADiskDescriptionMediaRemovableKey) =
             properties (CFSTR h kIOMediaRemovableKey) \<and>
           disk_ownership disk =
             ownership_cascade h
               (properties (CFSTR h kIOMediaRemovableKey) = Some kCFBooleanTrue)
               (DADiskGetDescription disk (da_key h kDADiskDescriptionDeviceInternalKey))
               (resolved_owner io cf os device)"
proof -
  from IOMedia_cases [OF assms] obtain p dev d4 where
    p: "IORegistryEntryCreateCFProperties io media = Some p" and
    dev: "IOMedia_device_object io media = Some dev" and
    disk: "disk = IOMedia_state h io cf os media dev d4" and
    ids: "disk_userEGID d4 = GID_ADMIN h" "disk_userEUID d4 = UID_ROOT h"
         "disk_userRGID d4 = GID_ADMIN h" "disk_userRUID d4 = UID_ROOT h" and
    removable: "disk_description d4 (da_key h kDADiskDescriptionMediaRemovableKey) =
                  p (CFSTR h kIOMediaRemovableKey)"
    by blast
  have "disk_description disk = disk_description d4"
    by (simp add: disk state_description)
  with state_stage_ids [OF ids, of io cf os media dev] removable
  have "DADiskGetDescription disk (da_key h kDADiskDescriptionMediaRemovableKey) =
             p (CFSTR h kIOMediaRemovableKey) \<and>
        disk_ownership disk =
             ownership_cascade h
               (p (CFSTR h kIOMediaRemovableKey) = Some kCFBooleanTrue)
               (DADiskGetDescription disk (da_key h kDADiskDescriptionDeviceInternalKey))
               (resolved_owner io cf os dev)"
    by (simp add: disk DADiskGetDescription_def CFDictionaryGetValue_def disk_ownership_def)
  with p dev show ?thesis
    by blast
qed

lemma option_bits:
  fixes a n e :: "32 word"
  assumes "a AND n = 0" "a AND e = 0" "n AND e = 0"
  shows "(a OR e) AND a = a" "(a OR e) AND n = 0" "(a OR e) AND e = e"
        "((a OR n) OR e) AND a = a" "((a OR n) OR e) AND n = n" "((a OR n) OR e) AND e = e"
        "(a OR n) AND a = a" "(a OR n) AND n = n" "(a OR n) AND e = 0"
        "e AND a = 0" "e AND n = 0" "n AND a = 0"
  using assms by (simp_all add: bit_eq_iff bit_simps) blast+

text \<open>
  C6, as amended. Mount automatic is set exactly when the \<open>autodiskmount\<close> hint is absent
  or is the boolean true (any other value, the boolean false or not a boolean, leaves it
  clear); no-defer is set exactly when the hint is the boolean true; eject upon logout is
  set exactly when the \<open>eject-upon-logout\<close> hint is the boolean true.
\<close>

theorem C6_options:
  assumes "DADiskCreateFromIOMedia h io cf os media = Some disk" and "option_bits_apart h"
  shows "\<exists>device.
           IOMedia_device_object io media = Some device \<and>
           (DADiskGetOption disk (kDADiskOptionMountAutomatic h) \<longleftrightarrow>
              IORegistryEntrySearchCFProperty io media kIOServicePlane
                (CFSTR_lit ''autodiskmount'') \<in> {None, Some kCFBooleanTrue}) \<and>
           (DADiskGetOption disk (kDADiskOptionMountAutomaticNoDefer h) \<longleftrightarrow>
              IORegistryEntrySearchCFProperty io media kIOServicePlane
                (CFSTR_lit ''autodiskmount'') = Some kCFBooleanTrue) \<and>
           (DADiskGetOption disk (kDADiskOptionEjectUponLogout h) \<longleftrightarrow>
              IORegistryEntrySearchCFProperty io device kIOServicePlane
                (CFSTR_lit ''eject-upon-logout'') = Some kCFBooleanTrue)"
proof -
  from IOMedia_cases [OF assms(1)] obtain dev d4 where
    dev: "IOMedia_device_object io media = Some dev" and
    disk: "disk = IOMedia_state h io cf os media dev d4" and
    d4: "disk_options d4 = 0"
    by blast
  let ?auto = "IORegistryEntrySearchCFProperty io media kIOServicePlane
                (CFSTR_lit ''autodiskmount'')"
  let ?eject = "IORegistryEntrySearchCFProperty io dev kIOServicePlane
                (CFSTR_lit ''eject-upon-logout'')"
  have options: "disk_options disk =
                   mount_automatic_bits h ?auto OR eject_upon_logout_bits h ?eject"
    by (simp add: disk state_stage_options d4)
  from assms(2) have nz: "kDADiskOptionMountAutomatic h \<noteq> 0"
    "kDADiskOptionMountAutomaticNoDefer h \<noteq> 0" "kDADiskOptionEjectUponLogout h \<noteq> 0"
    and apart: "kDADiskOptionMountAutomatic h AND kDADiskOptionMountAutomaticNoDefer h = 0"
      "kDADiskOptionMountAutomatic h AND kDADiskOptionEjectUponLogout h = 0"
      "kDADiskOptionMountAutomaticNoDefer h AND kDADiskOptionEjectUponLogout h = 0"
    by (simp_all add: option_bits_apart_def)
  note bits = option_bits [OF apart]
  have "(DADiskGetOption disk (kDADiskOptionMountAutomatic h) \<longleftrightarrow>
           ?auto \<in> {None, Some kCFBooleanTrue}) \<and>
        (DADiskGetOption disk (kDADiskOptionMountAutomaticNoDefer h) \<longleftrightarrow>
           ?auto = Some kCFBooleanTrue) \<and>
        (DADiskGetOption disk (kDADiskOptionEjectUponLogout h) \<longleftrightarrow>
           ?eject = Some kCFBooleanTrue)"
    using nz
    by (cases ?auto)
       (simp_all add: DADiskGetOption_def options mount_automatic_bits_def
          eject_upon_logout_bits_def bits apart)
  with dev show ?thesis
    by blast
qed

text \<open>
  C9. When a GUID is found from the device upwards, the device GUID entry of the
  description is a data object of exactly eight bytes, the 64-bit value most significant
  byte first, on a host of either byte order; when none is found the entry is absent.
\<close>

theorem C9_device_GUID:
  assumes "DADiskCreateFromIOMedia h io cf os media = Some disk"
  shows "\<exists>device.
           IOMedia_device_object io media = Some device \<and>
           (case IORegistryEntrySearchCFProperty io device kIOServicePlane (CFSTR_lit ''GUID'') of
              None \<Rightarrow> DADiskGetDescription disk (da_key h kDADiskDescriptionDeviceGUIDKey) = None
            | Some object \<Rightarrow>
                DADiskGetDescription disk (da_key h kDADiskDescriptionDeviceGUIDKey) =
                  Some (CFData (bytes_be (CFNumberGetValue64 cf object))) \<and>
                length (bytes_be (CFNumberGetValue64 cf object)) = 8 \<and>
                bytes_be (CFNumberGetValue64 cf object) =
                  map (byte_of (CFNumberGetValue64 cf object)) [7, 6, 5, 4, 3, 2, 1, 0])"
proof -
  from IOMedia_cases [OF assms] obtain dev d4 where
    dev: "IOMedia_device_object io media = Some dev" and
    disk: "disk = IOMedia_state h io cf os media dev d4" and
    guid: "disk_description d4 (da_key h kDADiskDescriptionDeviceGUIDKey) =
             (case IORegistryEntrySearchCFProperty io dev kIOServicePlane (CFSTR_lit ''GUID'') of
                None \<Rightarrow> None
              | Some object \<Rightarrow> Some (CFData (bytes_be (CFNumberGetValue64 cf object))))"
    by blast
  have "bytes_be v = map (byte_of v) [7, 6, 5, 4, 3, 2, 1, 0]" for v
    by (simp add: bytes_be_def bytes_le_def upt8)
  with guid have
    "case IORegistryEntrySearchCFProperty io dev kIOServicePlane (CFSTR_lit ''GUID'') of
              None \<Rightarrow> DADiskGetDescription disk (da_key h kDADiskDescriptionDeviceGUIDKey) = None
            | Some object \<Rightarrow>
                DADiskGetDescription disk (da_key h kDADiskDescriptionDeviceGUIDKey) =
                  Some (CFData (bytes_be (CFNumberGetValue64 cf object))) \<and>
                length (bytes_be (CFNumberGetValue64 cf object)) = 8 \<and>
                bytes_be (CFNumberGetValue64 cf object) =
                  map (byte_of (CFNumberGetValue64 cf object)) [7, 6, 5, 4, 3, 2, 1, 0]"
    by (simp add: disk state_description DADiskGetDescription_def CFDictionaryGetValue_def
                  length_bytes_be
             split: option.splits)
  with dev show ?thesis
    by blast
qed

section \<open>The serialization\<close>

lemma SetDescription_clears: "disk_serialization (DADiskSetDescription disk k v) = None"
  by (simp add: DADiskSetDescription_def Let_def split: option.splits)

lemma SetDescription_current: "serialization_current cf (DADiskSetDescription disk k v)"
  by (simp add: serialization_current_def SetDescription_clears)

lemma GetSerialization_current:
  "serialization_current cf disk \<Longrightarrow>
     serialization_current cf (snd (DADiskGetSerialization cf disk))"
  by (auto simp: serialization_current_def DADiskGetSerialization_def Let_def)

lemma GetSerialization_value:
  "serialization_current cf disk \<Longrightarrow>
     fst (DADiskGetSerialization cf disk) = DASerializeDiskDescription cf (disk_description disk)"
  by (auto simp: serialization_current_def DADiskGetSerialization_def Let_def)

lemma Call_current:
  assumes "serialization_current cf disk"
  shows "serialization_current cf (DADiskCall_apply cf disk call)"
proof (cases call)
  case (CallSetDescription k v)
  then show ?thesis by (simp add: SetDescription_current)
next
  case CallGetSerialization
  with assms show ?thesis by (simp add: GetSerialization_current)
next
  case (CallSetOptions options v)
  with assms show ?thesis
    by (simp add: serialization_current_def DADiskSetOptions_def Let_def)
next
  case (CallSetState state v)
  with assms show ?thesis
    by (simp add: serialization_current_def DADiskSetState_def Let_def)
next
  case (CallSetUserEGID g)
  with assms show ?thesis
    by (simp add: serialization_current_def DADiskSetUserEGID_def)
next
  case (CallSetUserEUID u)
  with assms show ?thesis
    by (simp add: serialization_current_def DADiskSetUserEUID_def)
next
  case (CallSetBypath b)
  with assms show ?thesis
    by (simp add: serialization_current_def DADiskSetBypath_def Let_def split: option.splits)
qed

lemma Calls_current:
  "serialization_current cf disk \<Longrightarrow> serialization_current cf (DADiskCalls cf disk calls)"
  unfolding DADiskCalls_def
  by (induction calls arbitrary: disk) (simp_all add: Call_current)

lemma DADiskCreate_current:
  "DADiskCreate h cf' ident = Some d \<Longrightarrow> serialization_current cf d"
  by (simp add: serialization_current_def DADiskCreate_Some)

lemma IOMedia_serialization:
  assumes "DADiskCreateFromIOMedia h io cf' os media = Some disk"
  shows "disk_serialization disk = None"
proof -
  from IOMedia_cases [OF assms] obtain dev d4 where
    "disk = IOMedia_state h io cf' os media dev d4" and "disk_serialization d4 = None"
    by blast
  then show ?thesis
    by (simp add: state_stage_serialization)
qed

text \<open>
  C2. \<open>DADiskSetDescription\<close> leaves no serialization behind, whether it sets or removes a
  key; \<open>DADiskGetSerialization\<close> serializes only when there is none, keeps what it made
  and returns what is kept. So on a disk from either constructor, after any calls a client
  makes, the serialization is absent or the encoding of the description as it is, and
  \<open>DADiskGetSerialization\<close> returns the encoding of the description as it is.
\<close>

theorem C2_serialization_cache:
  "disk_serialization (DADiskSetDescription disk0 k v) = None \<and>
   (disk_serialization disk0 = None \<longrightarrow>
      DADiskGetSerialization cf disk0 =
        (DASerializeDiskDescription cf (disk_description disk0),
         disk0\<lparr>disk_serialization := DASerializeDiskDescription cf (disk_description disk0)\<rparr>)) \<and>
   (disk_serialization disk0 \<noteq> None \<longrightarrow>
      DADiskGetSerialization cf disk0 = (disk_serialization disk0, disk0)) \<and>
   (DADiskCreateFromIOMedia h io cf' os media = Some disk \<or>
    DADiskCreateFromVolumePath h cf' os path = Some disk \<or>
    serialization_current cf disk \<longrightarrow>
      serialization_current cf (DADiskCalls cf disk calls) \<and>
      fst (DADiskGetSerialization cf (DADiskCalls cf disk calls)) =
        DASerializeDiskDescription cf (disk_description (DADiskCalls cf disk calls)))"
proof -
  have 1: "disk_serialization (DADiskSetDescription disk0 k v) = None"
    by (rule SetDescription_clears)
  have 2: "DADiskGetSerialization cf disk0 =
        (DASerializeDiskDescription cf (disk_description disk0),
         disk0\<lparr>disk_serialization := DASerializeDiskDescription cf (disk_description disk0)\<rparr>)"
    if "disk_serialization disk0 = None"
    using that by (simp add: DADiskGetSerialization_def Let_def)
  have 3: "DADiskGetSerialization cf disk0 = (disk_serialization disk0, disk0)"
    if "disk_serialization disk0 \<noteq> None"
    using that
    by (cases "disk_serialization disk0") (simp_all add: DADiskGetSerialization_def Let_def)
  have 4: "serialization_current cf (DADiskCalls cf disk calls) \<and>
      fst (DADiskGetSerialization cf (DADiskCalls cf disk calls)) =
        DASerializeDiskDescription cf (disk_description (DADiskCalls cf disk calls))"
    if "DADiskCreateFromIOMedia h io cf' os media = Some disk \<or>
        DADiskCreateFromVolumePath h cf' os path = Some disk \<or>
        serialization_current cf disk"
  proof -
    from that have "serialization_current cf disk"
      using IOMedia_serialization [of h io cf' os media disk]
            VolumePath_fields [of h cf' os path disk]
      by (auto simp: serialization_current_def)
    then have "serialization_current cf (DADiskCalls cf disk calls)"
      by (rule Calls_current)
    then show ?thesis
      by (simp add: GetSerialization_value)
  qed
  from 1 2 3 4 show ?thesis
    by blast
qed

section \<open>Required facts\<close>

lemma disk_object_facts:
  "IOMedia_disk_object h cf media p = Some d \<Longrightarrow>
     (case p (CFSTR h kIOBSDNameKey) of
        None \<Rightarrow> False
      | Some object \<Rightarrow> CFStringGetCString cf object kCFStringEncodingUTF8 \<noteq> None)"
  unfolding IOMedia_disk_object_def CFDictionaryGetValue_def Let_def
  by (cases "p (CFSTR h kIOBSDNameKey)") (auto split: bind_splits)

lemma copy_property_fact: "copy_property h p key dk d = Some d' \<Longrightarrow> p (CFSTR h key) \<noteq> None"
  by (auto simp: copy_property_def CFDictionaryGetValue_def split: option.splits)

lemma media_bsd_facts:
  "IOMedia_media_bsd h cf p d = Some d' \<Longrightarrow>
     p (CFSTR h kIOMediaPreferredBlockSizeKey) \<noteq> None \<and> p (CFSTR h kIOBSDMajorKey) \<noteq> None \<and>
     p (CFSTR h kIOBSDMinorKey) \<noteq> None \<and> p (CFSTR h kIOBSDUnitKey) \<noteq> None"
  unfolding IOMedia_media_bsd_def CFDictionaryGetValue_def Let_def
  by (auto split: bind_splits dest: copy_property_fact)

lemma media_kind_facts:
  "IOMedia_media_kind h io media p d = Some d' \<Longrightarrow>
     \<not> (IOObjectConformsTo io media kIODVDMediaClass \<and> p (CFSTR h kIODVDMediaTypeKey) = None) \<and>
     \<not> (\<not> IOObjectConformsTo io media kIODVDMediaClass \<and>
        IOObjectConformsTo io media kIOCDMediaClass \<and> p (CFSTR h kIOCDMediaTypeKey) = None)"
  unfolding IOMedia_media_kind_def
  by (auto split: if_splits dest: copy_property_fact)

lemma media_content_facts:
  "IOMedia_media_content h io media p d = Some d' \<Longrightarrow>
     p (CFSTR h kIOMediaContentKey) \<noteq> None \<and> p (CFSTR h kIOMediaEjectableKey) \<noteq> None \<and>
     IORegistryEntrySearchCFProperty io media kIOServicePlane (CFSTR h kIOMediaIconKey) \<noteq> None \<and>
     \<not> (IOObjectConformsTo io media kIODVDMediaClass \<and> p (CFSTR h kIODVDMediaTypeKey) = None) \<and>
     \<not> (\<not> IOObjectConformsTo io media kIODVDMediaClass \<and>
        IOObjectConformsTo io media kIOCDMediaClass \<and> p (CFSTR h kIOCDMediaTypeKey) = None) \<and>
     p (CFSTR h kIOMediaLeafKey) \<noteq> None"
  unfolding IOMedia_media_content_def
  by (auto split: bind_splits dest: copy_property_fact media_kind_facts)

lemma media_name_facts:
  "IOMedia_media_name h io cf media d = Some d' \<Longrightarrow>
     IORegistryEntryGetName io media \<noteq> None \<and>
     \<not> (IORegistryEntryGetPath io media kIODeviceTreePlane = None \<and>
        IORegistryEntryGetPath io media kIOServicePlane = None)"
  unfolding IOMedia_media_name_def
  by (auto split: bind_splits option.splits)

lemma media_flags_facts:
  "IOMedia_media_flags h p d = Some d' \<Longrightarrow>
     p (CFSTR h kIOMediaRemovableKey) \<noteq> None \<and> p (CFSTR h kIOMediaSizeKey) \<noteq> None \<and>
     p (CFSTR h kIOMediaWholeKey) \<noteq> None \<and> p (CFSTR h kIOMediaWritableKey) \<noteq> None"
  unfolding IOMedia_media_flags_def
  by (auto split: bind_splits dest: copy_property_fact)

lemma device_facts:
  "IOMedia_device h io cf dev d = Some d' \<Longrightarrow>
     IORegistryEntryCreateCFProperties io dev \<noteq> None \<and>
     IORegistryEntryGetPath io dev kIOServicePlane \<noteq> None"
  unfolding IOMedia_device_def IOMedia_device_path_def
  by (auto split: bind_splits)

lemma bus_facts:
  "IOMedia_bus h io cf dev d = Some d' \<Longrightarrow>
     (case IOIteratorNext_until (\<lambda>bus. IORegistryEntryInPlane io bus kIODeviceTreePlane)
             (IORegistryEntryCreateIterator io dev kIOServicePlane) of
        None \<Rightarrow> True
      | Some bus \<Rightarrow>
          IORegistryEntryGetNameInPlane io bus kIODeviceTreePlane \<noteq> None \<and>
          IORegistryEntryGetPath io bus kIODeviceTreePlane \<noteq> None)"
  unfolding IOMedia_bus_def
  by (auto split: bind_splits option.splits)

lemma IOMedia_facts:
  assumes "DADiskCreateFromIOMedia h io cf os media = Some disk"
  shows "\<not> IOMedia_fact_missing h io cf media"
proof -
  from assms obtain p d0 d1 dev d2 d3 where
    p: "IORegistryEntryCreateCFProperties io media = Some p" and
    d0: "IOMedia_disk_object h cf media p = Some d0" and
    d1: "IOMedia_media h io cf media p d0 = Some d1" and
    dev: "IOMedia_device_object io media = Some dev" and
    d2: "IOMedia_device h io cf dev d1 = Some d2" and
    d3: "IOMedia_bus h io cf dev d2 = Some d3"
    by (auto simp: DADiskCreateFromIOMedia_def split: bind_splits)
  from d1 obtain a b c where
    a: "IOMedia_media_bsd h cf p d0 = Some a" and
    b: "IOMedia_media_content h io media p a = Some b" and
    c: "IOMedia_media_name h io cf media b = Some c" and
    d: "IOMedia_media_flags h p c = Some d1"
    by (auto simp: IOMedia_media_def split: bind_splits)
  have "\<not> IOMedia_media_fact_missing h io cf media p"
    unfolding IOMedia_media_fact_missing_def
    using disk_object_facts [OF d0] media_bsd_facts [OF a] media_content_facts [OF b]
          media_name_facts [OF c] media_flags_facts [OF d]
    by (simp split: option.splits)
  moreover have "\<not> IOMedia_device_fact_missing io dev"
    unfolding IOMedia_device_fact_missing_def
    using device_facts [OF d2] bus_facts [OF d3]
    by (simp split: option.splits)
  ultimately show ?thesis
    by (simp add: IOMedia_fact_missing_def p dev)
qed

text \<open>
  C5, as amended. When a required fact is missing, or a registry query that has no
  fallback fails, \<open>DADiskCreateFromIOMedia\<close> returns \<open>NULL\<close>. The registry path of the
  media is missing only when both planes fail to give it.
\<close>

theorem C5_required_facts:
  "IOMedia_fact_missing h io cf media \<Longrightarrow> DADiskCreateFromIOMedia h io cf os media = None"
  using IOMedia_facts [of h io cf os media] by (cases "DADiskCreateFromIOMedia h io cf os media") auto

section \<open>The concrete machine at work\<close>

lemmas IOMedia_defs =
  DADiskCreateFromIOMedia_def IOMedia_disk_object_def IOMedia_media_def IOMedia_media_bsd_def
  IOMedia_media_content_def IOMedia_media_kind_def IOMedia_media_name_def
  IOMedia_media_flags_def IOMedia_device_object_def IOMedia_device_def
  IOMedia_device_protocol_def IOMedia_device_model_def IOMedia_device_path_def
  IOMedia_device_unit_def IOMedia_device_GUID_def IOMedia_bus_def
  IOMedia_appearance_time_def IOMedia_state_def IOMedia_mount_automatic_def
  IOMedia_eject_upon_logout_def IOMedia_owner_def IOMedia_owner_mode_def
  copy_property_def copy_optional_def set_description_def CFDictionaryGetValue_def
  CFDictionarySetValue_def DADiskCreate_def DADiskCreate_fields_def
  CFStringCreateWithCString_either_def CFDataCreate_def CFStringCompare_equal_def

lemma demo_da_names: "Rep_da_names (Abs_da_names demo_da_string) = demo_da_string"
proof (rule Abs_da_names_inverse, rule CollectI, rule injI)
  fix a b
  assume "demo_da_string a = demo_da_string b"
  then show "a = b"
    by (cases a; cases b; simp)
qed

lemma demo_strings:
  "CFSTR demo_header macro = CFSTR_lit (demo_io_string macro)"
  "da_key demo_header constant = CFSTR_lit (demo_da_string constant)"
  by (simp_all add: CFSTR_def da_key_def demo_header_def demo_da_names)

lemmas demo_defs =
  demo_iokit_def demo_cf_def demo_header_def demo_bsd_def demo_media_properties_def
  demo_device_properties_def no_hints_def demo_owner_hint_def demo_true_hints_def
  demo_number_hint_def demo_GUID_hint_def CFSTR_def da_key_def demo_da_names

theorem C3_ownership_witness:
  "map_option disk_ownership
     (DADiskCreateFromIOMedia demo_header
        (demo_iokit (demo_media_properties True) ''External'' no_hints)
        demo_cf demo_bsd 1) = Some ((80, 0), (99, 99)) \<and>
   map_option disk_ownership
     (DADiskCreateFromIOMedia demo_header
        (demo_iokit (demo_media_properties True) ''External'' demo_owner_hint)
        demo_cf demo_bsd 1) = Some ((20, 501), (20, 501))"
proof -
  let ?a = "demo_iokit (demo_media_properties True) ''External'' no_hints"
  let ?ca = "DADiskCreateFromIOMedia demo_header ?a demo_cf demo_bsd 1"
  have "map_option (\<lambda>d. DADiskGetDescription d (da_key demo_header kDADiskDescriptionDeviceInternalKey)) ?ca =
          Some (Some kCFBooleanFalse)"
    by (simp add: IOMedia_defs demo_defs DADiskGetDescription_def Let_def fmlookup_of_list)
  then obtain d where d: "?ca = Some d" and
    i: "DADiskGetDescription d (da_key demo_header kDADiskDescriptionDeviceInternalKey) = Some kCFBooleanFalse"
    by (cases ?ca) auto
  from C3_ownership [OF d] obtain p dev where
    p: "IORegistryEntryCreateCFProperties ?a 1 = Some p" and
    dev: "IOMedia_device_object ?a 1 = Some dev" and
    o: "disk_ownership d =
          ownership_cascade demo_header
            (p (CFSTR demo_header kIOMediaRemovableKey) = Some kCFBooleanTrue)
            (DADiskGetDescription d (da_key demo_header kDADiskDescriptionDeviceInternalKey))
            (resolved_owner ?a demo_cf demo_bsd dev)"
    by blast
  from p have p': "p = demo_media_properties True"
    by (simp add: demo_iokit_def)
  from dev have dev': "dev = 2"
    by (simp add: IOMedia_device_object_def demo_iokit_def)
  from o have "disk_ownership d = ((80, 0), (99, 99))"
    by (simp add: p' dev' i ownership_cascade_def resolved_owner_def demo_defs Let_def)
  with d have a: "map_option disk_ownership ?ca = Some ((80, 0), (99, 99))"
    by simp
  let ?b = "demo_iokit (demo_media_properties True) ''External'' demo_owner_hint"
  let ?cb = "DADiskCreateFromIOMedia demo_header ?b demo_cf demo_bsd 1"
  have "?cb \<noteq> None"
    by (simp add: IOMedia_defs demo_defs Let_def fmlookup_of_list)
  then obtain e where e: "?cb = Some e"
    by (cases ?cb) auto
  from C3_ownership [OF e] obtain q dev2 where
    dev2: "IOMedia_device_object ?b 1 = Some dev2" and
    o2: "disk_ownership e =
          ownership_cascade demo_header
            (q (CFSTR demo_header kIOMediaRemovableKey) = Some kCFBooleanTrue)
            (DADiskGetDescription e (da_key demo_header kDADiskDescriptionDeviceInternalKey))
            (resolved_owner ?b demo_cf demo_bsd dev2)"
    by blast
  from dev2 have dev2': "dev2 = 2"
    by (simp add: IOMedia_device_object_def demo_iokit_def)
  from o2 have "disk_ownership e = ((20, 501), (20, 501))"
    by (simp add: dev2' ownership_cascade_def resolved_owner_def demo_defs Let_def)
  with e have b: "map_option disk_ownership ?cb = Some ((20, 501), (20, 501))"
    by simp
  from a b show ?thesis
    by simp
qed


theorem C6_options_witness:
  "option_bits_apart demo_header \<and>
   map_option
     (\<lambda>d. (DADiskGetOption d (kDADiskOptionMountAutomatic demo_header),
           DADiskGetOption d (kDADiskOptionMountAutomaticNoDefer demo_header),
           DADiskGetOption d (kDADiskOptionEjectUponLogout demo_header)))
     (DADiskCreateFromIOMedia demo_header
        (demo_iokit (demo_media_properties False) ''Internal'' demo_true_hints)
        demo_cf demo_bsd 1) = Some (True, True, True) \<and>
   map_option
     (\<lambda>d. (DADiskGetOption d (kDADiskOptionMountAutomatic demo_header),
           DADiskGetOption d (kDADiskOptionMountAutomaticNoDefer demo_header),
           DADiskGetOption d (kDADiskOptionEjectUponLogout demo_header)))
     (DADiskCreateFromIOMedia demo_header
        (demo_iokit (demo_media_properties False) ''Internal'' no_hints)
        demo_cf demo_bsd 1) = Some (True, False, False)"
proof -
  have apart: "option_bits_apart demo_header"
    by (simp add: option_bits_apart_def demo_header_def)
  let ?a = "demo_iokit (demo_media_properties False) ''Internal'' demo_true_hints"
  let ?ca = "DADiskCreateFromIOMedia demo_header ?a demo_cf demo_bsd 1"
  have "?ca \<noteq> None"
    by (simp add: IOMedia_defs demo_defs Let_def fmlookup_of_list)
  then obtain d where d: "?ca = Some d"
    by (cases ?ca) auto
  from C6_options [OF d apart] have
    "DADiskGetOption d (kDADiskOptionMountAutomatic demo_header) \<and>
     DADiskGetOption d (kDADiskOptionMountAutomaticNoDefer demo_header) \<and>
     DADiskGetOption d (kDADiskOptionEjectUponLogout demo_header)"
    by (simp add: demo_iokit_def demo_true_hints_def)
  with d have a:
    "map_option
       (\<lambda>d. (DADiskGetOption d (kDADiskOptionMountAutomatic demo_header),
             DADiskGetOption d (kDADiskOptionMountAutomaticNoDefer demo_header),
             DADiskGetOption d (kDADiskOptionEjectUponLogout demo_header))) ?ca =
     Some (True, True, True)"
    by simp
  let ?b = "demo_iokit (demo_media_properties False) ''Internal'' no_hints"
  let ?cb = "DADiskCreateFromIOMedia demo_header ?b demo_cf demo_bsd 1"
  have "?cb \<noteq> None"
    by (simp add: IOMedia_defs demo_defs Let_def fmlookup_of_list)
  then obtain e where e: "?cb = Some e"
    by (cases ?cb) auto
  from C6_options [OF e apart] have
    "DADiskGetOption e (kDADiskOptionMountAutomatic demo_header) \<and>
     \<not> DADiskGetOption e (kDADiskOptionMountAutomaticNoDefer demo_header) \<and>
     \<not> DADiskGetOption e (kDADiskOptionEjectUponLogout demo_header)"
    by (simp add: demo_iokit_def no_hints_def)
  with e have b:
    "map_option
       (\<lambda>d. (DADiskGetOption d (kDADiskOptionMountAutomatic demo_header),
             DADiskGetOption d (kDADiskOptionMountAutomaticNoDefer demo_header),
             DADiskGetOption d (kDADiskOptionEjectUponLogout demo_header))) ?cb =
     Some (True, False, False)"
    by simp
  from apart a b show ?thesis
    by simp
qed

theorem C6_counterexample:
  "IORegistryEntrySearchCFProperty
     (demo_iokit (demo_media_properties False) ''Internal'' demo_number_hint)
     1 kIOServicePlane (CFSTR_lit ''autodiskmount'') = Some (CFNumber 1) \<and>
   CFNumber 1 \<noteq> kCFBooleanFalse \<and>
   DADiskCreateFromIOMedia demo_header
     (demo_iokit (demo_media_properties False) ''Internal'' demo_number_hint)
     demo_cf demo_bsd 1 \<noteq> None \<and>
   \<not> DADiskGetOption
       (the (DADiskCreateFromIOMedia demo_header
               (demo_iokit (demo_media_properties False) ''Internal''
                  demo_number_hint)
               demo_cf demo_bsd 1))
       (kDADiskOptionMountAutomatic demo_header)"
proof -
  let ?a = "demo_iokit (demo_media_properties False) ''Internal'' demo_number_hint"
  let ?ca = "DADiskCreateFromIOMedia demo_header ?a demo_cf demo_bsd 1"
  have "map_option disk_options ?ca = Some 0"
    by (simp add: IOMedia_defs demo_defs Let_def fmlookup_of_list)
  then obtain d where d: "?ca = Some d" and o: "disk_options d = 0"
    by (cases ?ca) auto
  have "IORegistryEntrySearchCFProperty ?a 1 kIOServicePlane (CFSTR_lit ''autodiskmount'') =
          Some (CFNumber 1)"
    by (simp add: demo_iokit_def demo_number_hint_def)
  with d o show ?thesis
    by (simp add: DADiskGetOption_def)
qed

theorem C5_required_facts_witness:
  "IOMedia_fact_missing demo_header
     (demo_iokit ((demo_media_properties False)(CFSTR_lit ''Size'' := None))
        ''Internal'' no_hints) demo_cf 1 \<and>
   DADiskCreateFromIOMedia demo_header
     (demo_iokit ((demo_media_properties False)(CFSTR_lit ''Size'' := None))
        ''Internal'' no_hints) demo_cf demo_bsd 1 = None"
proof -
  let ?a = "demo_iokit ((demo_media_properties False)(CFSTR_lit ''Size'' := None))
              ''Internal'' no_hints"
  have m: "IOMedia_fact_missing demo_header ?a demo_cf 1"
    by (simp add: IOMedia_fact_missing_def IOMedia_media_fact_missing_def demo_iokit_def
                  demo_strings)
  from C5_required_facts [OF m] m show ?thesis
    by simp
qed

theorem C5_counterexample:
  "IORegistryEntryGetPath
     (demo_iokit (demo_media_properties False) ''Internal'' no_hints)
     1 kIODeviceTreePlane = None \<and>
   DADiskCreateFromIOMedia demo_header
     (demo_iokit (demo_media_properties False) ''Internal'' no_hints)
     demo_cf demo_bsd 1 \<noteq> None"
proof -
  let ?a = "demo_iokit (demo_media_properties False) ''Internal'' no_hints"
  have "DADiskCreateFromIOMedia demo_header ?a demo_cf demo_bsd 1 \<noteq> None"
    by (simp add: IOMedia_defs demo_defs Let_def fmlookup_of_list)
  moreover have "IORegistryEntryGetPath ?a 1 kIODeviceTreePlane = None"
    by (simp add: demo_iokit_def)
  ultimately show ?thesis
    by simp
qed

theorem C7_volume_path_witness:
  "mount_statistics demo_cf demo_bsd None = None \<and>
   DADiskCreateFromVolumePath demo_header demo_cf demo_bsd None = None \<and>
   mount_statistics demo_cf demo_bsd (Some (CFURL ''/Volumes/Gone'')) = None \<and>
   DADiskCreateFromVolumePath demo_header demo_cf demo_bsd (Some (CFURL ''/Volumes/Gone'')) =
     None \<and>
   map_option disk_id
     (DADiskCreateFromVolumePath demo_header demo_cf demo_bsd (Some (CFURL ''/Volumes/Data''))) =
     Some ''/Volumes/Data''"
proof -
  have 1: "mount_statistics demo_cf demo_bsd None = None"
    by (simp add: mount_statistics_def)
  have 2: "mount_statistics demo_cf demo_bsd (Some (CFURL ''/Volumes/Gone'')) = None"
    by (simp add: mount_statistics_def demo_cf_def demo_bsd_def)
  let ?v = "DADiskCreateFromVolumePath demo_header demo_cf demo_bsd
              (Some (CFURL ''/Volumes/Data''))"
  have "?v \<noteq> None"
    by (simp add: DADiskCreateFromVolumePath_def DADiskCreate_def CFDataCreate_def Let_def
                  demo_cf_def demo_bsd_def)
  then obtain d where d: "?v = Some d"
    by (cases ?v) auto
  with C7_volume_path [of demo_cf demo_bsd "Some (CFURL ''/Volumes/Data'')" demo_header d]
  obtain fs where
    "mount_statistics demo_cf demo_bsd (Some (CFURL ''/Volumes/Data'')) = Some fs" and
    "disk_id d = c_str (f_mntonname fs)"
    by blast
  then have "disk_id d = ''/Volumes/Data''"
    by (auto simp: mount_statistics_def demo_cf_def demo_bsd_def c_str_def NUL_def)
  with d have 3: "map_option disk_id ?v = Some ''/Volumes/Data''"
    by simp
  from 1 2 3 C7_volume_path [of demo_cf demo_bsd None demo_header]
       C7_volume_path [of demo_cf demo_bsd "Some (CFURL ''/Volumes/Gone'')" demo_header]
  show ?thesis
    by simp
qed

theorem C8_staging_witness:
  "0 \<notin> set (staged_bits demo_header) \<and>
   map_option (\<lambda>d. map (DADiskGetState d) (staged_bits demo_header))
     (DADiskCreateFromVolumePath demo_header demo_cf demo_bsd (Some (CFURL ''/Volumes/Data''))) =
     Some [True, True, True, True, True, True] \<and>
   map_option (\<lambda>d. map (DADiskGetState d) (staged_bits demo_header))
     (DADiskCreateFromIOMedia demo_header
        (demo_iokit (demo_media_properties False) ''Internal'' no_hints)
        demo_cf demo_bsd 1) =
     Some [False, False, False, False, False, False]"
proof -
  have nz: "0 \<notin> set (staged_bits demo_header)"
    by (simp add: staged_bits_def demo_header_def)
  let ?v = "DADiskCreateFromVolumePath demo_header demo_cf demo_bsd
              (Some (CFURL ''/Volumes/Data''))"
  let ?a = "demo_iokit (demo_media_properties False) ''Internal'' no_hints"
  let ?c = "DADiskCreateFromIOMedia demo_header ?a demo_cf demo_bsd 1"
  have "?v \<noteq> None"
    by (simp add: DADiskCreateFromVolumePath_def DADiskCreate_def CFDataCreate_def Let_def
                  demo_cf_def demo_bsd_def)
  then obtain d where d: "?v = Some d"
    by (cases ?v) auto
  have "?c \<noteq> None"
    by (simp add: IOMedia_defs demo_defs Let_def fmlookup_of_list)
  then obtain e where e: "?c = Some e"
    by (cases ?c) auto
  from C8_staging [of demo_header demo_cf demo_bsd "Some (CFURL ''/Volumes/Data'')" d ?a 1 e]
       d e nz
  have "(\<forall>staged \<in> set (staged_bits demo_header). DADiskGetState d staged) \<and>
        (\<forall>staged \<in> set (staged_bits demo_header). \<not> DADiskGetState e staged)"
    by simp
  then have "map (DADiskGetState d) (staged_bits demo_header) =
               [True, True, True, True, True, True] \<and>
             map (DADiskGetState e) (staged_bits demo_header) =
               [False, False, False, False, False, False]"
    by (simp add: staged_bits_def)
  with nz d e show ?thesis
    by simp
qed

theorem C9_device_GUID_witness:
  "map_option (\<lambda>d. DADiskGetDescription d (da_key demo_header kDADiskDescriptionDeviceGUIDKey))
     (DADiskCreateFromIOMedia demo_header
        (demo_iokit (demo_media_properties False) ''Internal'' demo_GUID_hint)
        demo_cf demo_bsd 1) =
     Some (Some (CFData [0x00, 0x11, 0x22, 0x33, 0x44, 0x55, 0x66, 0x77])) \<and>
   map_option (\<lambda>d. DADiskGetDescription d (da_key demo_header kDADiskDescriptionDeviceGUIDKey))
     (DADiskCreateFromIOMedia demo_header
        (demo_iokit (demo_media_properties False) ''Internal'' no_hints)
        demo_cf demo_bsd 1) = Some None"
proof -
  let ?a = "demo_iokit (demo_media_properties False) ''Internal'' demo_GUID_hint"
  let ?ca = "DADiskCreateFromIOMedia demo_header ?a demo_cf demo_bsd 1"
  have "?ca \<noteq> None"
    by (simp add: IOMedia_defs demo_defs Let_def fmlookup_of_list memory_image_def
                  bytes_le_def bytes_be_def)
  then obtain d where d: "?ca = Some d"
    by (cases ?ca) auto
  from C9_device_GUID [OF d] obtain dev where
    dev: "IOMedia_device_object ?a 1 = Some dev" and
    g: "case IORegistryEntrySearchCFProperty ?a dev kIOServicePlane (CFSTR_lit ''GUID'') of
          None \<Rightarrow> DADiskGetDescription d (da_key demo_header kDADiskDescriptionDeviceGUIDKey) = None
        | Some object \<Rightarrow>
            DADiskGetDescription d (da_key demo_header kDADiskDescriptionDeviceGUIDKey) =
              Some (CFData (bytes_be (CFNumberGetValue64 demo_cf object))) \<and>
            length (bytes_be (CFNumberGetValue64 demo_cf object)) = 8 \<and>
            bytes_be (CFNumberGetValue64 demo_cf object) =
              map (byte_of (CFNumberGetValue64 demo_cf object)) [7, 6, 5, 4, 3, 2, 1, 0]"
    by blast
  have "map (byte_of (0x0011223344556677 :: 64 word)) [7, 6, 5, 4, 3, 2, 1, 0] =
          [0x00, 0x11, 0x22, 0x33, 0x44, 0x55, 0x66, 0x77]"
    by (simp add: byte_of_def)
  with g have "DADiskGetDescription d (da_key demo_header kDADiskDescriptionDeviceGUIDKey) =
                 Some (CFData [0x00, 0x11, 0x22, 0x33, 0x44, 0x55, 0x66, 0x77])"
    by (simp add: demo_iokit_def demo_GUID_hint_def demo_cf_def)
  with d have a:
    "map_option (\<lambda>d. DADiskGetDescription d (da_key demo_header kDADiskDescriptionDeviceGUIDKey)) ?ca =
       Some (Some (CFData [0x00, 0x11, 0x22, 0x33, 0x44, 0x55, 0x66, 0x77]))"
    by simp
  let ?b = "demo_iokit (demo_media_properties False) ''Internal'' no_hints"
  let ?cb = "DADiskCreateFromIOMedia demo_header ?b demo_cf demo_bsd 1"
  have "?cb \<noteq> None"
    by (simp add: IOMedia_defs demo_defs Let_def fmlookup_of_list)
  then obtain e where e: "?cb = Some e"
    by (cases ?cb) auto
  from C9_device_GUID [OF e] have
    "DADiskGetDescription e (da_key demo_header kDADiskDescriptionDeviceGUIDKey) = None"
    by (auto simp: demo_iokit_def no_hints_def)
  with e have b:
    "map_option (\<lambda>d. DADiskGetDescription d (da_key demo_header kDADiskDescriptionDeviceGUIDKey)) ?cb = Some None"
    by simp
  from a b show ?thesis
    by simp
qed

theorem C4_match_witness:
  "DADiskMatch demo_header (demo_iokit (demo_media_properties False) ''Internal'' no_hints)
     (set_description (demo_disk ''/dev/disk2'')
        (da_key demo_header kDADiskDescriptionMediaWholeKey) kCFBooleanTrue)
     [] \<and>
   \<not> DADiskMatch demo_header
     (demo_iokit (demo_media_properties False) ''Internal'' no_hints)
     (set_description (demo_disk ''/dev/disk2'')
        (da_key demo_header kDADiskDescriptionMediaWholeKey) kCFBooleanTrue)
     [(da_key demo_header kDADiskDescriptionMediaWholeKey, kCFBooleanTrue),
      (da_key demo_header kDADiskDescriptionMediaRemovableKey, kCFBooleanFalse)] \<and>
   \<not> DADiskMatch demo_header
     (demo_iokit (demo_media_properties False) ''Internal'' no_hints)
     (set_description (demo_disk ''/dev/disk2'')
        (da_key demo_header kDADiskDescriptionMediaWholeKey) kCFBooleanTrue)
     [(da_key demo_header kDADiskDescriptionMediaWholeKey, kCFBooleanFalse)] \<and>
   DADiskMatch demo_header (demo_iokit (demo_media_properties False) ''Internal'' no_hints)
     (set_description (demo_disk ''/dev/disk2'')
        (da_key demo_header kDADiskDescriptionMediaWholeKey) kCFBooleanTrue)
     [(da_key demo_header kDADiskDescriptionMediaWholeKey, kCFBooleanTrue)]"
proof -
  let ?io = "demo_iokit (demo_media_properties False) ''Internal'' no_hints"
  let ?whole = "da_key demo_header kDADiskDescriptionMediaWholeKey"
  let ?removable = "da_key demo_header kDADiskDescriptionMediaRemovableKey"
  let ?d = "set_description (demo_disk ''/dev/disk2'') ?whole kCFBooleanTrue"
  have ordinary: "?whole \<noteq> CFSTR demo_header kIOPropertyMatchKey"
    "?removable \<noteq> CFSTR demo_header kIOPropertyMatchKey"
    by (simp_all add: demo_strings)
  have absent: "DADiskGetDescription ?d ?removable = None"
    by (simp add: DADiskGetDescription_def CFDictionaryGetValue_def set_description_def
                  CFDictionarySetValue_def demo_disk_def)
  have unequal: "DADiskGetDescription ?d ?whole \<noteq> Some kCFBooleanFalse"
    by (simp add: DADiskGetDescription_def CFDictionaryGetValue_def set_description_def
                  CFDictionarySetValue_def demo_disk_def)
  have 1: "DADiskMatch demo_header ?io ?d []"
    using C4_match [where h = demo_header and io = ?io and disk = ?d] by simp
  have 2: "\<not> DADiskMatch demo_header ?io ?d
              [(?whole, kCFBooleanTrue), (?removable, kCFBooleanFalse)]"
    using C4_match [where h = demo_header and io = ?io and disk = ?d and k = ?removable and
                      v = kCFBooleanFalse and
                      match = "[(?whole, kCFBooleanTrue), (?removable, kCFBooleanFalse)]"]
          absent ordinary
    by simp
  have 3: "\<not> DADiskMatch demo_header ?io ?d [(?whole, kCFBooleanFalse)]"
    using C4_match [where h = demo_header and io = ?io and disk = ?d and k = ?whole and
                      v = kCFBooleanFalse and match = "[(?whole, kCFBooleanFalse)]"]
          unequal ordinary
    by simp
  have 4: "DADiskMatch demo_header ?io ?d [(?whole, kCFBooleanTrue)]"
    by (simp add: DADiskMatch_def DADiskMatch_applier_def CFDictionaryGetValue_def
                  set_description_def CFDictionarySetValue_def demo_disk_def CFEqual_def
                  ordinary)
  from 1 2 3 4 show ?thesis
    by simp
qed

theorem C2_serialization_cache_witness:
  "serialization_current demo_cf (demo_disk ''/Volumes/Data'') \<and>
   fst (DADiskGetSerialization demo_cf (demo_disk ''/Volumes/Data'')) =
     Some (CFDictionary (fmap_of_list [])) \<and>
   fst (DADiskGetSerialization demo_cf
          (DADiskCalls demo_cf (demo_disk ''/Volumes/Data'')
             [CallGetSerialization,
              CallSetDescription (da_key demo_header kDADiskDescriptionVolumeNameKey)
                (Some (CFString (CFSTR_lit ''Data''))),
              CallSetState 1 True])) =
     Some (CFDictionary (fmap_of_list
       [(da_key demo_header kDADiskDescriptionVolumeNameKey, CFString (CFSTR_lit ''Data''))]))"
proof -
  let ?d = "demo_disk ''/Volumes/Data''"
  let ?calls = "[CallGetSerialization,
              CallSetDescription (da_key demo_header kDADiskDescriptionVolumeNameKey)
                (Some (CFString (CFSTR_lit ''Data''))),
              CallSetState 1 True]"
  have c: "serialization_current demo_cf ?d"
    by (simp add: serialization_current_def demo_disk_def)
  have n: "disk_serialization ?d = None"
    by (simp add: demo_disk_def)
  have desc: "disk_description (DADiskCalls demo_cf ?d ?calls) =
                [da_key demo_header kDADiskDescriptionVolumeNameKey \<mapsto>
                   CFString (CFSTR_lit ''Data'')]"
    by (simp add: DADiskCalls_def DADiskGetSerialization_def DADiskSetDescription_def
                  DADiskSetState_def Let_def CFDictionarySetValue_def demo_disk_def)
  from C2_serialization_cache
         [where ?disk0.0 = ?d and cf = demo_cf and disk = ?d and calls = ?calls] c n
  have "fst (DADiskGetSerialization demo_cf ?d) =
          DASerializeDiskDescription demo_cf (disk_description ?d) \<and>
        fst (DADiskGetSerialization demo_cf (DADiskCalls demo_cf ?d ?calls)) =
          DASerializeDiskDescription demo_cf (disk_description (DADiskCalls demo_cf ?d ?calls))"
    by simp
  moreover have "DASerializeDiskDescription demo_cf = demo_serialize"
    by (simp add: demo_cf_def)
  moreover have "demo_serialize (disk_description ?d) = Some (CFDictionary (fmap_of_list []))"
    by (simp add: demo_serialize_def demo_disk_def List.map_filter_simps)
  moreover have
    "demo_serialize [da_key demo_header kDADiskDescriptionVolumeNameKey \<mapsto>
                   CFString (CFSTR_lit ''Data'')] =
       Some (CFDictionary (fmap_of_list
         [(da_key demo_header kDADiskDescriptionVolumeNameKey, CFString (CFSTR_lit ''Data''))]))"
    by (simp add: demo_serialize_def List.map_filter_simps)
  ultimately show ?thesis
    using c by (simp add: desc)
qed

theorem C10_special_key_witness:
  "DADiskMatch demo_header (demo_iokit (demo_media_properties False) ''Internal'' no_hints)
     (set_description
        (set_description ((demo_disk ''/dev/disk2'')\<lparr>disk_media := Some 1\<rparr>)
           (da_key demo_header kDADiskDescriptionMediaWholeKey) kCFBooleanTrue)
        (CFSTR_lit ''IOPropertyMatch'')
        (CFDictionary (fmap_of_list [(CFSTR_lit ''Removable'', kCFBooleanFalse)])))
     [(CFSTR_lit ''IOPropertyMatch'', CFNumber 7),
      (da_key demo_header kDADiskDescriptionMediaWholeKey, kCFBooleanTrue)] \<and>
   \<not> DADiskMatch demo_header
     (demo_iokit (demo_media_properties False) ''Internal'' no_hints)
     ((demo_disk ''/dev/disk2'')\<lparr>disk_media := Some 1\<rparr>)
     [(CFSTR_lit ''IOPropertyMatch'',
       CFDictionary (fmap_of_list [(CFSTR_lit ''Removable'', kCFBooleanFalse)]))]"
proof -
  let ?io = "demo_iokit (demo_media_properties False) ''Internal'' no_hints"
  let ?table = "CFDictionary (fmap_of_list [(CFSTR_lit ''Removable'', kCFBooleanFalse)])"
  let ?d0 = "(demo_disk ''/dev/disk2'')\<lparr>disk_media := Some 1\<rparr>"
  let ?d1 = "set_description
               (set_description ?d0 (da_key demo_header kDADiskDescriptionMediaWholeKey)
                  kCFBooleanTrue)
               (CFSTR_lit ''IOPropertyMatch'') ?table"
  let ?m1 = "[(CFSTR_lit ''IOPropertyMatch'', CFNumber 7),
              (da_key demo_header kDADiskDescriptionMediaWholeKey, kCFBooleanTrue)]"
  let ?m0 = "[(CFSTR_lit ''IOPropertyMatch'', ?table)]"
  have key: "CFSTR demo_header kIOPropertyMatchKey = CFSTR_lit ''IOPropertyMatch''"
    by (simp add: demo_strings)
  have 1: "DADiskMatch demo_header ?io ?d1 ?m1"
    using C10_special_key
            [where h = demo_header and io = ?io and disk = ?d1 and match = ?m1 and
               v = "CFNumber 7"]
    by (simp add: key demo_strings DADiskGetDescription_def CFDictionaryGetValue_def
                  set_description_def CFDictionarySetValue_def demo_disk_def demo_iokit_def
                  demo_media_properties_def fmlookup_of_list)
  have 0: "\<not> DADiskMatch demo_header ?io ?d0 ?m0"
    using C10_special_key
            [where h = demo_header and io = ?io and disk = ?d0 and match = ?m0 and
               v = ?table]
    by (simp add: key DADiskGetDescription_def CFDictionaryGetValue_def demo_disk_def
                  demo_iokit_def)
  from 1 0 show ?thesis
    by simp
qed

end
